theory Spec2Isabelle
  imports Complex_Main "HOL-Library.Word"
begin

unbundle bit_operations_syntax

section \<open>Python values, exceptions and observable effects\<close>

text \<open>
  The scraping modules are Python. A call either returns a value or raises; the model
  returns \<open>Inl\<close> of the exception or \<open>Inr\<close> of the value. What a call does to the
  outside world is recorded beside its result: the number of HTTP GETs it issued
  (\<open>session.get\<close>) and the durations it slept (\<open>time.sleep\<close>), in order.

  A \<open>str\<close> is a \<open>string\<close> whose characters are the code points below 256; text with
  other code points is not a value of the model. A \<open>float\<close> is a real number, a NaN or
  an infinity.
\<close>

datatype py_exception =
    RequestException | HTTPError | RetryError | AttributeError
  | ValueError | OverflowError | KeyError

datatype pyfloat = Finite real | NaN | PosInf | NegInf

datatype pyval =
    PNone
  | PBool bool
  | PInt int
  | PFloat pyfloat
  | PStr string
  | PList "pyval list"
  | PDict "(string \<times> pyval) list"

record effects =
  gets :: nat
  sleeps :: "real list"

definition no_effects :: effects where
  "no_effects = \<lparr>gets = 0, sleeps = []\<rparr>"

definition then_effects :: "effects \<Rightarrow> effects \<Rightarrow> effects" where
  "then_effects e1 e2 = \<lparr>gets = gets e1 + gets e2, sleeps = sleeps e1 @ sleeps e2\<rparr>"

text \<open>
  \<open>time.sleep(secs)\<close> converts the duration to nanoseconds in a 64-bit integer and then
  checks its sign: a NaN raises \<open>ValueError\<close>, an infinity or a duration out of the
  integer's range \<open>OverflowError\<close>, a negative duration \<open>ValueError\<close>; otherwise the call
  sleeps for the duration.
\<close>

definition py_sleep :: "pyfloat \<Rightarrow> py_exception + real" where
  "py_sleep secs =
     (case secs of
        NaN \<Rightarrow> Inl ValueError
      | PosInf \<Rightarrow> Inl OverflowError
      | NegInf \<Rightarrow> Inl OverflowError
      | Finite r \<Rightarrow>
          if \<bar>r * 10 ^ 9\<bar> \<ge> 2 ^ 63 then Inl OverflowError
          else if r < 0 then Inl ValueError
          else Inr r)"

text \<open>Truthiness of an \<open>Optional[str]\<close>: \<open>None\<close> and the empty string are falsy.\<close>

definition py_truthy :: "string option \<Rightarrow> bool" where
  "py_truthy v = (case v of None \<Rightarrow> False | Some h \<Rightarrow> h \<noteq> [])"

section \<open>hashlib.md5 (RFC 1321)\<close>

text \<open>
  \<open>SafeScraper._get_cache_key\<close> is \<open>hashlib.md5(url.encode()).hexdigest()\<close>. The digest
  is computed here as RFC 1321 defines it, on 32-bit words; \<open>encode\<close> is UTF-8, one
  byte for a code point below 128 and two bytes for the others.
\<close>

type_synonym u32 = "32 word"
type_synonym byte = "8 word"

definition md5_K :: "u32 list" where
  "md5_K = [
    0xd76aa478, 0xe8c7b756, 0x242070db, 0xc1bdceee,
    0xf57c0faf, 0x4787c62a, 0xa8304613, 0xfd469501,
    0x698098d8, 0x8b44f7af, 0xffff5bb1, 0x895cd7be,
    0x6b901122, 0xfd987193, 0xa679438e, 0x49b40821,
    0xf61e2562, 0xc040b340, 0x265e5a51, 0xe9b6c7aa,
    0xd62f105d, 0x02441453, 0xd8a1e681, 0xe7d3fbc8,
    0x21e1cde6, 0xc33707d6, 0xf4d50d87, 0x455a14ed,
    0xa9e3e905, 0xfcefa3f8, 0x676f02d9, 0x8d2a4c8a,
    0xfffa3942, 0x8771f681, 0x6d9d6122, 0xfde5380c,
    0xa4beea44, 0x4bdecfa9, 0xf6bb4b60, 0xbebfbc70,
    0x289b7ec6, 0xeaa127fa, 0xd4ef3085, 0x04881d05,
    0xd9d4d039, 0xe6db99e5, 0x1fa27cf8, 0xc4ac5665,
    0xf4292244, 0x432aff97, 0xab9423a7, 0xfc93a039,
    0x655b59c3, 0x8f0ccc92, 0xffeff47d, 0x85845dd1,
    0x6fa87e4f, 0xfe2ce6e0, 0xa3014314, 0x4e0811a1,
    0xf7537e82, 0xbd3af235, 0x2ad7d2bb, 0xeb86d391]"

definition md5_s :: "nat list" where
  "md5_s = [
    7, 12, 17, 22, 7, 12, 17, 22, 7, 12, 17, 22, 7, 12, 17, 22,
    5, 9, 14, 20, 5, 9, 14, 20, 5, 9, 14, 20, 5, 9, 14, 20,
    4, 11, 16, 23, 4, 11, 16, 23, 4, 11, 16, 23, 4, 11, 16, 23,
    6, 10, 15, 21, 6, 10, 15, 21, 6, 10, 15, 21, 6, 10, 15, 21]"

definition rotl32 :: "nat \<Rightarrow> u32 \<Rightarrow> u32" where
  "rotl32 n w = push_bit n w OR drop_bit (32 - n) w"

definition le_bytes32 :: "u32 \<Rightarrow> byte list" where
  "le_bytes32 w = [ucast w, ucast (drop_bit 8 w), ucast (drop_bit 16 w), ucast (drop_bit 24 w)]"

definition le_bytes64 :: "64 word \<Rightarrow> byte list" where
  "le_bytes64 w = map (\<lambda>i. ucast (drop_bit (8 * i) w)) [0..<8]"

definition le_word32 :: "byte list \<Rightarrow> u32" where
  "le_word32 bs = foldr (\<lambda>b acc. ucast b OR push_bit 8 acc) bs 0"

definition md5_pad :: "byte list \<Rightarrow> byte list" where
  "md5_pad bs = bs @ [0x80] @ replicate ((119 - length bs mod 64) mod 64) 0
                 @ le_bytes64 (of_nat (8 * length bs))"

definition md5_chunks :: "byte list \<Rightarrow> byte list list" where
  "md5_chunks p = map (\<lambda>i. take 64 (drop (64 * i) p)) [0..<length p div 64]"

definition md5_words :: "byte list \<Rightarrow> u32 list" where
  "md5_words chunk = map (\<lambda>g. le_word32 (take 4 (drop (4 * g) chunk))) [0..<16]"

type_synonym md5_state = "u32 \<times> u32 \<times> u32 \<times> u32"

definition md5_step :: "u32 list \<Rightarrow> md5_state \<Rightarrow> nat \<Rightarrow> md5_state" where
  "md5_step M st i =
     (case st of (A, B, C, D) \<Rightarrow>
        let (F, g) =
              (if i < 16 then ((B AND C) OR (NOT B AND D), i)
               else if i < 32 then ((D AND B) OR (NOT D AND C), (5 * i + 1) mod 16)
               else if i < 48 then (B XOR C XOR D, (3 * i + 5) mod 16)
               else (C XOR (B OR NOT D), (7 * i) mod 16));
            F' = F + A + md5_K ! i + M ! g
        in (D, B + rotl32 (md5_s ! i) F', B, C))"

definition md5_chunk :: "md5_state \<Rightarrow> byte list \<Rightarrow> md5_state" where
  "md5_chunk st chunk =
     (case st of (a0, b0, c0, d0) \<Rightarrow>
        case foldl (md5_step (md5_words chunk)) st [0..<64] of (A, B, C, D) \<Rightarrow>
          (a0 + A, b0 + B, c0 + C, d0 + D))"

definition md5_init :: md5_state where
  "md5_init = (0x67452301, 0xefcdab89, 0x98badcfe, 0x10325476)"

definition md5 :: "byte list \<Rightarrow> md5_state" where
  "md5 bs = foldl md5_chunk md5_init (md5_chunks (md5_pad bs))"

definition hexdigit :: "nat \<Rightarrow> char" where
  "hexdigit n = ''0123456789abcdef'' ! (n mod 16)"

definition hex_byte :: "byte \<Rightarrow> string" where
  "hex_byte b = [hexdigit (unat b div 16), hexdigit (unat b mod 16)]"

definition hexdigest :: "md5_state \<Rightarrow> string" where
  "hexdigest st = (case st of (a, b, c, d) \<Rightarrow>
     concat (map hex_byte (le_bytes32 a @ le_bytes32 b @ le_bytes32 c @ le_bytes32 d)))"

definition utf8 :: "char \<Rightarrow> byte list" where
  "utf8 c =
     (let n = (of_char c :: nat)
      in if n < 128 then [of_nat n] else [of_nat (192 + n div 64), of_nat (128 + n mod 64)])"

definition encode :: "string \<Rightarrow> byte list" where
  "encode s = concat (map utf8 s)"

definition get_cache_key :: "string \<Rightarrow> string" where
  "get_cache_key url = hexdigest (md5 (encode url))"



section \<open>tenacity's retry decorator\<close>

text \<open>
  \<open>WebScraper.fetch_page\<close> is decorated with
  \<open>@retry(stop=stop_after_attempt(3), wait=wait_exponential(multiplier=1, min=4, max=10))\<close>.
  The decorator calls the function; a returned value (also \<open>None\<close>) is handed back; any
  exception is retried after the wait, until the stop condition holds, and then
  \<open>RetryError\<close> is raised (no \<open>reraise\<close>, no \<open>retry_error_callback\<close> is given).
  The attempt number starts at 1.
\<close>

definition stop_after_attempt :: "nat \<Rightarrow> nat \<Rightarrow> bool" where
  "stop_after_attempt max_attempt_number attempt_number =
     (attempt_number \<ge> max_attempt_number)"

definition wait_exponential :: "real \<Rightarrow> real \<Rightarrow> real \<Rightarrow> nat \<Rightarrow> real" where
  "wait_exponential multiplier mn mx attempt_number =
     max (max 0 mn) (min (multiplier * 2 ^ (attempt_number - 1)) mx)"

function tenacity_retry ::
  "nat \<Rightarrow> (nat \<Rightarrow> real) \<Rightarrow> (nat \<Rightarrow> (py_exception + 'a) \<times> effects) \<Rightarrow> nat
     \<Rightarrow> (py_exception + 'a) \<times> effects" where
  "tenacity_retry max_attempt wait fn n =
     (case fn n of
        (Inr v, eff) \<Rightarrow> (Inr v, eff)
      | (Inl e, eff) \<Rightarrow>
          if stop_after_attempt max_attempt n then (Inl RetryError, eff)
          else (case tenacity_retry max_attempt wait fn (Suc n) of
                  (r, eff') \<Rightarrow>
                    (r, then_effects eff (then_effects \<lparr>gets = 0, sleeps = [wait n]\<rparr> eff'))))"
  by pat_completeness auto
termination
  by (relation "measure (\<lambda>(m, w, f, n). m - n)") (auto simp: stop_after_attempt_def)

declare tenacity_retry.simps [simp del]

section \<open>WebScraper.fetch_page\<close>

text \<open>
  What the network answers to one GET: a response with a status code and a body, or a
  \<open>requests.exceptions.RequestException\<close> (timeout, connection reset, ...).
  \<open>net n\<close> is the answer to the n-th attempt of a call; \<open>url_valid\<close> is the verdict
  of \<open>validators.url(url)\<close>.
\<close>

datatype http_outcome = Response nat string | NetworkFailure

record web_scraper =
  delay :: pyfloat
  timeout :: int

record net_env =
  url_valid :: bool
  net :: "nat \<Rightarrow> http_outcome"

text \<open>\<open>response.raise_for_status()\<close> raises \<open>HTTPError\<close> for a status from 400 to 599.\<close>

definition raise_for_status :: "nat \<Rightarrow> bool" where
  "raise_for_status st = (400 \<le> st \<and> st < 600)"

text \<open>
  The body of \<open>fetch_page\<close>, one attempt. The \<open>except\<close> clause logs and re-raises a
  \<open>RequestException\<close>; what \<open>time.sleep(self.delay)\<close> raises leaves the body as it is.
\<close>

definition fetch_page_body ::
  "'a web_scraper_scheme \<Rightarrow> bool \<Rightarrow> http_outcome \<Rightarrow> (py_exception + string option) \<times> effects" where
  "fetch_page_body self valid resp =
     (if \<not> valid then (Inr None, no_effects)
      else case resp of
          NetworkFailure \<Rightarrow> (Inl RequestException, \<lparr>gets = 1, sleeps = []\<rparr>)
        | Response st txt \<Rightarrow>
            if raise_for_status st then (Inl HTTPError, \<lparr>gets = 1, sleeps = []\<rparr>)
            else (case py_sleep (delay self) of
                    Inl e \<Rightarrow> (Inl e, \<lparr>gets = 1, sleeps = []\<rparr>)
                  | Inr d \<Rightarrow> (Inr (Some txt), \<lparr>gets = 1, sleeps = [d]\<rparr>)))"

definition WebScraper_fetch_page ::
  "'a web_scraper_scheme \<Rightarrow> 'b net_env_scheme \<Rightarrow> (py_exception + string option) \<times> effects" where
  "WebScraper_fetch_page self env =
     tenacity_retry 3 (wait_exponential 1 4 10)
       (\<lambda>n. fetch_page_body self (url_valid env) (net env n)) 1"

section \<open>SafeScraper\<close>

text \<open>
  The cache directory holds one file \<open><key>.json\<close> per key. A file either parses to
  the record \<open>{url, html, timestamp}\<close> or fails to (unreadable, malformed JSON, a bad
  timestamp): \<open>_get_cached_response\<close> catches every exception of the read and returns
  \<open>None\<close>. Clock readings are integers (microseconds).
\<close>

datatype cache_file = CacheData string string int | Unreadable

datatype write_outcome = Written | OpenFailed | DumpFailed

record safe_scraper = web_scraper +
  min_delay :: pyfloat
  max_delay :: pyfloat
  max_requests :: int
  request_count :: int
  cache_enabled :: bool
  cache_dir :: "string \<Rightarrow> cache_file option"

text \<open>
  What one call of \<open>SafeScraper.fetch_page\<close> reads from outside: the network, the value
  drawn by \<open>random.uniform(min_delay, max_delay)\<close>, the clock at the cache lookup and at
  the cache store, and whether writing the cache file works.
\<close>

record fetch_env = net_env +
  actual_delay :: pyfloat
  now_lookup :: int
  now_store :: int
  write_result :: write_outcome

definition SafeScraper_init ::
  "pyfloat \<Rightarrow> pyfloat \<Rightarrow> int \<Rightarrow> int \<Rightarrow> bool \<Rightarrow> pyfloat \<Rightarrow> (string \<Rightarrow> cache_file option)
     \<Rightarrow> safe_scraper" where
  "SafeScraper_init mn mx max_requests_per_session tmo cache_on drawn files =
     \<lparr>delay = drawn, timeout = tmo, min_delay = mn, max_delay = mx,
      max_requests = max_requests_per_session, request_count = 0,
      cache_enabled = cache_on, cache_dir = files\<rparr>"

definition timedelta_hours :: "int \<Rightarrow> int" where
  "timedelta_hours h = h * 3600 * 1000000"

definition get_cached_response :: "safe_scraper \<Rightarrow> string \<Rightarrow> int \<Rightarrow> string option" where
  "get_cached_response self url now =
     (if \<not> cache_enabled self then None
      else case cache_dir self (get_cache_key url) of
          None \<Rightarrow> None
        | Some Unreadable \<Rightarrow> None
        | Some (CacheData u html cached_time) \<Rightarrow>
            if now - cached_time > timedelta_hours 24 then None else Some html)"

definition save_to_cache ::
  "safe_scraper \<Rightarrow> string \<Rightarrow> string \<Rightarrow> int \<Rightarrow> write_outcome \<Rightarrow> safe_scraper" where
  "save_to_cache self url html now w =
     (if \<not> cache_enabled self then self
      else case w of
          Written \<Rightarrow>
            self\<lparr>cache_dir := (cache_dir self)(get_cache_key url \<mapsto> CacheData url html now)\<rparr>
        | OpenFailed \<Rightarrow> self
        | DumpFailed \<Rightarrow> self\<lparr>cache_dir := (cache_dir self)(get_cache_key url \<mapsto> Unreadable)\<rparr>)"

definition SafeScraper_fetch_page ::
  "safe_scraper \<Rightarrow> string \<Rightarrow> fetch_env
     \<Rightarrow> (py_exception + string option) \<times> safe_scraper \<times> effects" where
  "SafeScraper_fetch_page self url env =
     (if request_count self \<ge> max_requests self then (Inr None, self, no_effects)
      else
        let cached_html = get_cached_response self url (now_lookup env) in
        if py_truthy cached_html then (Inr cached_html, self, no_effects)
        else
          case (if request_count self > 0
                then (case py_sleep (actual_delay env) of
                        Inl e \<Rightarrow> Inl e
                      | Inr d \<Rightarrow> Inr \<lparr>gets = 0, sleeps = [d]\<rparr>)
                else Inr no_effects) of
            Inl e \<Rightarrow> (Inl e, self, no_effects)
          | Inr waited \<Rightarrow>
              (case WebScraper_fetch_page self env of
                 (Inl e, eff) \<Rightarrow> (Inl e, self, then_effects waited eff)
               | (Inr html, eff) \<Rightarrow>
                   if py_truthy html
                   then (Inr html,
                         save_to_cache (self\<lparr>request_count := request_count self + 1\<rparr>)
                           url (the html) (now_store env) (write_result env),
                         then_effects waited eff)
                   else (Inr html, self, then_effects waited eff)))"


text \<open>A session: calls of \<open>fetch_page\<close> one after the other on the same scraper.\<close>

fun session_results ::
  "safe_scraper \<Rightarrow> (string \<times> fetch_env) list \<Rightarrow> (py_exception + string option) list" where
  "session_results self [] = []"
| "session_results self ((url, env) # calls) =
     (case SafeScraper_fetch_page self url env of
        (r, self', eff) \<Rightarrow> r # session_results self' calls)"

fun run_session :: "safe_scraper \<Rightarrow> (string \<times> fetch_env) list \<Rightarrow> safe_scraper" where
  "run_session self [] = self"
| "run_session self ((url, env) # calls) =
     (case SafeScraper_fetch_page self url env of
        (r, self', eff) \<Rightarrow> run_session self' calls)"

section \<open>VPNManager\<close>

text \<open>
  \<open>current_vpn_index\<close> starts at 0 and is only ever assigned \<open>(i + 1) % len\<close>, so it is
  a natural number.
\<close>

record vpn_config =
  protocol :: string
  host :: string
  port :: int
  username :: "string option"
  password :: "string option"
  enabled :: bool
  name :: "string option"

record vpn_manager =
  vpn_configs :: "vpn_config list"
  current_vpn_index :: nat
  active_vpn :: "vpn_config option"

text \<open>
  A configuration file either fails to load (it cannot be opened or parsed) or gives
  the list under \<open>'vpns'\<close>. An entry of the list either builds a \<open>VPNConfig\<close> or raises
  (a missing \<open>protocol\<close>, \<open>host\<close> or \<open>port\<close>). \<open>load_config\<close> appends the enabled entries in
  order; the first exception ends it, with what was appended left in place and the
  active endpoint not set.
\<close>

datatype config_file = Unloadable | Vpns "vpn_config option list"

fun load_entries :: "vpn_config list \<Rightarrow> vpn_config option list \<Rightarrow> vpn_config list \<times> bool" where
  "load_entries cfgs [] = (cfgs, True)"
| "load_entries cfgs (None # es) = (cfgs, False)"
| "load_entries cfgs (Some vpn # es) =
     load_entries (if enabled vpn then cfgs @ [vpn] else cfgs) es"

definition load_config :: "vpn_manager \<Rightarrow> config_file \<Rightarrow> vpn_manager" where
  "load_config self file =
     (case file of
        Unloadable \<Rightarrow> self
      | Vpns es \<Rightarrow>
          (case load_entries (vpn_configs self) es of
             (cfgs, completed) \<Rightarrow>
               let self' = self\<lparr>vpn_configs := cfgs\<rparr>
               in if completed \<and> cfgs \<noteq> [] then self'\<lparr>active_vpn := Some (cfgs ! 0)\<rparr>
                  else self'))"

text \<open>
  \<open>__init__\<close>: the file is \<open>None\<close> when no path is given or no file exists at the path.
\<close>

definition VPNManager_init :: "config_file option \<Rightarrow> vpn_manager" where
  "VPNManager_init config =
     (let self = \<lparr>vpn_configs = [], current_vpn_index = 0, active_vpn = None\<rparr>
      in case config of None \<Rightarrow> self | Some file \<Rightarrow> load_config self file)"

definition add_vpn :: "vpn_manager \<Rightarrow> vpn_config \<Rightarrow> vpn_manager" where
  "add_vpn self vpn =
     (if enabled vpn then
        (let self' = self\<lparr>vpn_configs := vpn_configs self @ [vpn]\<rparr>
         in if active_vpn self' = None then self'\<lparr>active_vpn := Some vpn\<rparr> else self')
      else self)"

definition rotate_vpn :: "vpn_manager \<Rightarrow> vpn_config option \<times> vpn_manager" where
  "rotate_vpn self =
     (if vpn_configs self = [] then (None, self)
      else
        let i = (current_vpn_index self + 1) mod length (vpn_configs self);
            self' = self\<lparr>current_vpn_index := i, active_vpn := Some (vpn_configs self ! i)\<rparr>
        in (active_vpn self', self'))"

definition rotate :: "vpn_manager \<Rightarrow> vpn_manager" where
  "rotate self = snd (rotate_vpn self)"

section \<open>CompetitorIntelligence.monitor_changes\<close>

text \<open>
  \<open>current_data\<close> is what \<open>full_analysis(url)\<close> returned (its body is wrapped in
  \<open>try/except Exception\<close>, and the failure is stored under \<open>'error'\<close>);
  \<open>now_iso\<close> is \<open>datetime.now().isoformat()\<close>. \<open>d.get(k, default)\<close> on a value that
  is not a dict raises \<open>AttributeError\<close>.

  \<open>py_eq\<close> is Python's \<open>==\<close> on these values: booleans, integers and floats are
  compared as numbers (\<open>True == 1 == 1.0\<close>, and a NaN equals nothing), lists element by
  element, dictionaries key by key (the keys of a dictionary are distinct).
\<close>

fun py_number :: "pyval \<Rightarrow> pyfloat option" where
  "py_number (PBool b) = Some (Finite (if b then 1 else 0))"
| "py_number (PInt i) = Some (Finite (of_int i))"
| "py_number (PFloat f) = Some f"
| "py_number _ = None"

definition float_eq :: "pyfloat \<Rightarrow> pyfloat \<Rightarrow> bool" where
  "float_eq x y = (x \<noteq> NaN \<and> y \<noteq> NaN \<and> x = y)"

fun py_eq :: "pyval \<Rightarrow> pyval \<Rightarrow> bool" where
  "py_eq (PList xs) (PList ys) = list_all2 py_eq xs ys"
| "py_eq (PDict kv) (PDict kw) =
     (set (map fst kv) = set (map fst kw)
      \<and> list_all (\<lambda>(k, x). case map_of kw k of Some y \<Rightarrow> py_eq x y | None \<Rightarrow> False) kv)"
| "py_eq (PStr s) (PStr t) = (s = t)"
| "py_eq PNone PNone = True"
| "py_eq a b =
     (case (py_number a, py_number b) of
        (Some x, Some y) \<Rightarrow> float_eq x y
      | _ \<Rightarrow> False)"

fun py_get :: "pyval \<Rightarrow> string \<Rightarrow> pyval \<Rightarrow> py_exception + pyval" where
  "py_get (PDict kvs) k d = Inr (case map_of kvs k of Some v \<Rightarrow> v | None \<Rightarrow> d)"
| "py_get _ k d = Inl AttributeError"

definition py_bind :: "py_exception + 'a \<Rightarrow> ('a \<Rightarrow> py_exception + 'b) \<Rightarrow> py_exception + 'b" where
  "py_bind m f = (case m of Inl e \<Rightarrow> Inl e | Inr v \<Rightarrow> f v)"

definition title_text :: "pyval \<Rightarrow> py_exception + pyval" where
  "title_text data =
     py_bind (py_get data ''seo_analysis'' (PDict []))
       (\<lambda>seo. py_bind (py_get seo ''title'' (PDict []))
          (\<lambda>t. py_get t ''text'' (PStr '''')))"

definition has_pricing_page :: "pyval \<Rightarrow> py_exception + pyval" where
  "has_pricing_page data =
     py_bind (py_get data ''pricing_info'' (PDict []))
       (\<lambda>p. py_get p ''has_pricing_page'' (PBool False))"

definition change_entry :: "string \<Rightarrow> pyval \<Rightarrow> pyval \<Rightarrow> pyval" where
  "change_entry field old new =
     PDict [(''field'', PStr field), (''old_value'', old), (''new_value'', new)]"

definition monitor_changes ::
  "string \<Rightarrow> (string \<times> pyval) list option \<Rightarrow> pyval \<Rightarrow> string
     \<Rightarrow> py_exception + (string \<times> pyval) list" where
  "monitor_changes url previous_data current_data now_iso =
     (if previous_data = None \<or> previous_data = Some [] then
        Inr [(''url'', PStr url),
             (''message'', PStr ''No previous data for comparison''),
             (''current_data'', current_data)]
      else
        py_bind (title_text (PDict (the previous_data))) (\<lambda>old_title.
        py_bind (title_text current_data) (\<lambda>new_title.
        py_bind (has_pricing_page (PDict (the previous_data))) (\<lambda>old_pricing.
        py_bind (has_pricing_page current_data) (\<lambda>new_pricing.
          let title_changes =
                (if \<not> py_eq old_title new_title
                 then [change_entry ''title'' old_title new_title] else []);
              pricing_changes =
                (if \<not> py_eq old_pricing new_pricing
                 then [change_entry ''pricing_page'' old_pricing new_pricing] else []);
              changes = title_changes @ pricing_changes
          in Inr [(''url'', PStr url),
                  (''timestamp'', PStr now_iso),
                  (''changes_detected'', PBool (changes \<noteq> [])),
                  (''changes'', PList changes)])))))"

section \<open>Python string methods\<close>

text \<open>
  The string methods the extractor calls. \<open>py_isspace\<close> holds of the white space that
  \<open>str.strip()\<close> removes: the code points 9 to 13, 28 to 32, 133 and 160 (the others are
  above 255). \<open>py_linebreak\<close> holds of the line boundaries of \<open>str.splitlines()\<close>: 10
  to 13, 28 to 30 and 133.
\<close>

definition py_isspace :: "char \<Rightarrow> bool" where
  "py_isspace c =
     (let n = (of_char c :: nat)
      in (9 \<le> n \<and> n \<le> 13) \<or> (28 \<le> n \<and> n \<le> 32) \<or> n = 133 \<or> n = 160)"

definition py_linebreak :: "char \<Rightarrow> bool" where
  "py_linebreak c =
     (let n = (of_char c :: nat)
      in (10 \<le> n \<and> n \<le> 13) \<or> (28 \<le> n \<and> n \<le> 30) \<or> n = 133)"

definition py_strip :: "string \<Rightarrow> string" where
  "py_strip s = rev (dropWhile py_isspace (rev (dropWhile py_isspace s)))"

definition py_join :: "string \<Rightarrow> string list \<Rightarrow> string" where
  "py_join sep xs = (case xs of [] \<Rightarrow> [] | x # rest \<Rightarrow> x @ concat (map (\<lambda>y. sep @ y) rest))"

text \<open>\<open>s.split(sep)\<close> for a non-empty separator; \<open>acc\<close> holds the current piece, reversed.\<close>

function split_from :: "string \<Rightarrow> string \<Rightarrow> string \<Rightarrow> string list" where
  "split_from sep acc s =
     (if s = [] then [rev acc]
      else if sep \<noteq> [] \<and> take (length sep) s = sep
        then rev acc # split_from sep [] (drop (length sep) s)
        else split_from sep (hd s # acc) (tl s))"
  by pat_completeness auto
termination
  by (relation "measure (\<lambda>(sep, acc, s). length s)") auto

declare split_from.simps [simp del]

definition py_split :: "string \<Rightarrow> string \<Rightarrow> string list" where
  "py_split sep s = split_from sep [] s"

text \<open>\<open>s.splitlines()\<close>: \<open>\r\n\<close> is one boundary, and a final boundary opens no line.\<close>

fun splitlines_from :: "string \<Rightarrow> string \<Rightarrow> string list" where
  "splitlines_from acc [] = (if acc = [] then [] else [rev acc])"
| "splitlines_from acc (c # cs) =
     (if py_linebreak c then
        (case cs of
           d # ds \<Rightarrow>
             if of_char c = (13::nat) \<and> of_char d = (10::nat)
             then rev acc # splitlines_from [] ds
             else rev acc # splitlines_from [] cs
         | [] \<Rightarrow> [rev acc])
      else splitlines_from (c # acc) cs)"

definition py_splitlines :: "string \<Rightarrow> string list" where
  "py_splitlines s = splitlines_from [] s"

text \<open>The maximal runs of characters that are not white space.\<close>

fun tokens_from :: "string \<Rightarrow> string \<Rightarrow> string list" where
  "tokens_from acc [] = (if acc = [] then [] else [rev acc])"
| "tokens_from acc (c # cs) =
     (if py_isspace c
      then (if acc = [] then tokens_from [] cs else rev acc # tokens_from [] cs)
      else tokens_from (c # acc) cs)"

definition py_tokens :: "string \<Rightarrow> string list" where
  "py_tokens s = tokens_from [] s"

section \<open>The parsed document\<close>

text \<open>
  The HTML parser is outside the repository: \<open>parse_html\<close> hands the markup to
  BeautifulSoup. A parsed document is the list of the root's children; a node is a tag
  with its name, attributes and children, or a string. A string is a \<open>NavigableString\<close>
  (character data too), or a string of one of the classes that \<open>get_text\<close> passes over:
  a comment, a declaration, the text the parser puts inside a script, style or template
  tag or inside \<open>rt\<close> and \<open>rp\<close>. An attribute holds its value as written. The queries
  the extractor uses are defined on this tree, in document order.
\<close>

datatype node =
    Tag string "(string \<times> string) list" "node list"
  | NavigableString string
  | OtherString string

type_synonym soup = "node list"

fun tags :: "node \<Rightarrow> node list" where
  "tags (Tag n attrs cs) = Tag n attrs cs # concat (map tags cs)"
| "tags (NavigableString s) = []"
| "tags (OtherString s) = []"

fun strings :: "node \<Rightarrow> string list" where
  "strings (Tag n attrs cs) = concat (map strings cs)"
| "strings (NavigableString s) = [s]"
| "strings (OtherString s) = []"

fun named :: "string \<Rightarrow> node \<Rightarrow> bool" where
  "named nm (Tag n attrs cs) = (n = nm)"
| "named nm (NavigableString s) = False"
| "named nm (OtherString s) = False"

fun tag_get :: "node \<Rightarrow> string \<Rightarrow> string option" where
  "tag_get (Tag n attrs cs) k = map_of attrs k"
| "tag_get (NavigableString s) k = None"
| "tag_get (OtherString s) k = None"

definition find_all :: "string \<Rightarrow> soup \<Rightarrow> node list" where
  "find_all nm doc = filter (named nm) (concat (map tags doc))"

text \<open>
  The attributes that BeautifulSoup's HTML tree builder splits into a list of values at
  white space, by tag. A wanted value matches such an attribute when it is one of the
  values, or the values joined by a space; it matches any other attribute when it is
  the attribute's string. The extractor reads none of the attributes of the table.
\<close>

definition multi_valued :: "string \<Rightarrow> string \<Rightarrow> bool" where
  "multi_valued tag attr =
     (attr \<in> set [''class'', ''accesskey'', ''dropzone'']
      \<or> (tag \<in> set [''a'', ''link''] \<and> attr \<in> set [''rel'', ''rev''])
      \<or> (tag \<in> set [''td'', ''th''] \<and> attr = ''headers'')
      \<or> (tag = ''form'' \<and> attr = ''accept-charset'')
      \<or> (tag = ''object'' \<and> attr = ''archive'')
      \<or> (tag = ''area'' \<and> attr = ''rel'')
      \<or> (tag = ''icon'' \<and> attr = ''sizes'')
      \<or> (tag = ''iframe'' \<and> attr = ''sandbox'')
      \<or> (tag = ''output'' \<and> attr = ''for''))"

definition attr_matches :: "string \<Rightarrow> string \<Rightarrow> string \<Rightarrow> string \<Rightarrow> bool" where
  "attr_matches tag attr written wanted =
     (if multi_valued tag attr
      then (let vs = py_tokens written in List.member vs wanted \<or> py_join '' '' vs = wanted)
      else written = wanted)"

text \<open>
  \<open>soup.find(name, attrs={k: v})\<close>: the first tag of that name that has the attribute
  with a matching value.
\<close>

definition find_first :: "string \<Rightarrow> (string \<times> string) list \<Rightarrow> soup \<Rightarrow> node option" where
  "find_first nm want doc =
     (case filter (\<lambda>t. list_all (\<lambda>(k, v). case tag_get t k of
                                              None \<Rightarrow> False
                                            | Some written \<Rightarrow> attr_matches nm k written v) want)
             (find_all nm doc) of
        [] \<Rightarrow> None
      | t # rest \<Rightarrow> Some t)"

text \<open>
  \<open>get_text(separator, strip=True)\<close>: the strings of class \<open>NavigableString\<close>, stripped,
  the empty ones left out, joined by the separator.
\<close>

definition get_text_strip :: "string \<Rightarrow> node list \<Rightarrow> string" where
  "get_text_strip sep nodes =
     py_join sep (filter (\<lambda>s. s \<noteq> []) (map py_strip (concat (map strings nodes))))"

text \<open>
  \<open>for element in soup.find_all(tag): element.decompose()\<close> removes every subtree whose
  root is a tag of that name.
\<close>

fun decompose_in :: "string \<Rightarrow> node \<Rightarrow> node" where
  "decompose_in nm (Tag n attrs cs) =
     Tag n attrs (map (decompose_in nm) (filter (\<lambda>c. \<not> named nm c) cs))"
| "decompose_in nm (NavigableString s) = NavigableString s"
| "decompose_in nm (OtherString s) = OtherString s"

definition decompose_all :: "string \<Rightarrow> soup \<Rightarrow> soup" where
  "decompose_all nm doc = map (decompose_in nm) (filter (\<lambda>c. \<not> named nm c) doc)"

section \<open>WebScraper: extraction\<close>

text \<open>
  \<open>urljoin\<close> and \<open>urlparse(...).netloc\<close> are \<open>urllib.parse\<close>'s, and the order in which
  \<open>list(set(links))\<close> lists the links is that of the interpreter's set, which follows
  the hashes of the strings in the running process: the extractor takes the three as
  they are.
\<close>

record pylib =
  urljoin :: "string \<Rightarrow> string \<Rightarrow> string"
  netloc :: "string \<Rightarrow> string"
  list_of_set :: "string list \<Rightarrow> string list"

definition content_of :: "node option \<Rightarrow> string \<Rightarrow> string option" where
  "content_of t k =
     (case t of None \<Rightarrow> None
      | Some n \<Rightarrow> (case tag_get n k of None \<Rightarrow> None
                   | Some v \<Rightarrow> if v = [] then None else Some v))"

definition meta_field :: "soup \<Rightarrow> string \<Rightarrow> string \<Rightarrow> string" where
  "meta_field doc k v =
     (case content_of (find_first ''meta'' [(k, v)] doc) ''content'' of
        None \<Rightarrow> [] | Some c \<Rightarrow> c)"

definition extract_metadata :: "soup \<Rightarrow> string \<Rightarrow> (string \<times> pyval) list" where
  "extract_metadata doc url =
     [(''url'', PStr url),
      (''title'',
         PStr (case find_first ''title'' [] doc of
                 None \<Rightarrow> []
               | Some t \<Rightarrow> get_text_strip [] [t])),
      (''description'', PStr (meta_field doc ''name'' ''description'')),
      (''keywords'',
         PList (case content_of (find_first ''meta'' [(''name'', ''keywords'')] doc) ''content'' of
                  None \<Rightarrow> []
                | Some c \<Rightarrow> map (\<lambda>k. PStr (py_strip k)) (py_split '','' c))),
      (''og_title'', PStr (meta_field doc ''property'' ''og:title'')),
      (''og_description'', PStr (meta_field doc ''property'' ''og:description'')),
      (''og_image'', PStr (meta_field doc ''property'' ''og:image'')),
      (''canonical_url'',
         PStr (case content_of (find_first ''link'' [(''rel'', ''canonical'')] doc) ''href'' of
                 None \<Rightarrow> [] | Some h \<Rightarrow> h)),
      (''language'',
         PStr (case content_of (find_first ''html'' [] doc) ''lang'' of
                 None \<Rightarrow> [] | Some l \<Rightarrow> l)),
      (''author'', PStr (meta_field doc ''name'' ''author''))]"

definition extract_links :: "pylib \<Rightarrow> soup \<Rightarrow> string \<Rightarrow> bool \<Rightarrow> string list" where
  "extract_links lib doc base_url internal_only =
     (let base_domain = netloc lib base_url;
          hrefs = concat (map (\<lambda>a. case tag_get a ''href'' of None \<Rightarrow> [] | Some h \<Rightarrow> [h])
                            (find_all ''a'' doc));
          absolute = map (urljoin lib base_url) hrefs
      in list_of_set lib (if internal_only
                          then filter (\<lambda>u. netloc lib u = base_domain) absolute
                          else absolute))"

definition attr_or_empty :: "node \<Rightarrow> string \<Rightarrow> string" where
  "attr_or_empty t k = (case tag_get t k of None \<Rightarrow> [] | Some v \<Rightarrow> v)"

definition extract_images :: "pylib \<Rightarrow> soup \<Rightarrow> string \<Rightarrow> pyval list" where
  "extract_images lib doc base_url =
     map (\<lambda>img. PDict [(''src'', PStr (urljoin lib base_url (attr_or_empty img ''src''))),
                        (''alt'', PStr (attr_or_empty img ''alt'')),
                        (''title'', PStr (attr_or_empty img ''title''))])
         (find_all ''img'' doc)"

definition default_strip_tags :: "string list" where
  "default_strip_tags = [''script'', ''style'', ''nav'', ''footer'', ''header'', ''aside'']"

text \<open>
  \<open>extract_text_content\<close> decomposes the unwanted tags in the document it is given: the
  model returns the text and the document as the call leaves it.
\<close>

definition clean_text :: "string \<Rightarrow> string" where
  "clean_text text =
     (let lines = map py_strip (py_splitlines text);
          chunks = concat (map (\<lambda>line. map py_strip (py_split ''  '' line)) lines)
      in py_join '' '' (filter (\<lambda>chunk. chunk \<noteq> []) chunks))"

definition extract_text_content :: "soup \<Rightarrow> string list \<Rightarrow> string \<times> soup" where
  "extract_text_content doc strip_tags =
     (let doc' = foldl (\<lambda>d nm. decompose_all nm d) doc strip_tags
      in (clean_text (get_text_strip '' '' doc'), doc'))"

text \<open>
  The fields \<open>scrape_page\<close> extracts from the parsed document, in the order its dictionary
  literal evaluates them; \<open>extract_text_content\<close> comes last.
\<close>

definition extract_document :: "pylib \<Rightarrow> soup \<Rightarrow> string \<Rightarrow> (string \<times> pyval) list \<times> soup" where
  "extract_document lib doc url =
     (let metadata = extract_metadata doc url;
          links = extract_links lib doc url False;
          internal_links = extract_links lib doc url True;
          images = extract_images lib doc url;
          (text_content, doc') = extract_text_content doc default_strip_tags
      in ([(''url'', PStr url),
           (''metadata'', PDict metadata),
           (''links'', PList (map PStr links)),
           (''internal_links'', PList (map PStr internal_links)),
           (''images'', PList images),
           (''text_content'', PStr text_content)], doc'))"

definition scrape_page ::
  "pylib \<Rightarrow> (string \<Rightarrow> soup) \<Rightarrow> 'a web_scraper_scheme \<Rightarrow> 'b net_env_scheme \<Rightarrow> string \<Rightarrow> real
     \<Rightarrow> (py_exception + (string \<times> pyval) list) \<times> effects" where
  "scrape_page lib parse_html self env url now =
     (case WebScraper_fetch_page self env of
        (Inl e, eff) \<Rightarrow> (Inl e, eff)
      | (Inr html, eff) \<Rightarrow>
          if \<not> py_truthy html
          then (Inr [(''error'', PStr ''Failed to fetch page''), (''url'', PStr url)], eff)
          else (Inr (fst (extract_document lib (parse_html (the html)) url)
                     @ [(''timestamp'', PFloat (Finite now))]), eff))"

section \<open>Auxiliary notions used in the statements\<close>

text \<open>An attempt fails when \<open>session.get\<close> raises or \<open>raise_for_status\<close> does.\<close>

definition attempt_fails :: "http_outcome \<Rightarrow> bool" where
  "attempt_fails resp =
     (case resp of NetworkFailure \<Rightarrow> True | Response st html \<Rightarrow> raise_for_status st)"

definition after_wait :: "effects \<Rightarrow> real \<Rightarrow> effects \<Rightarrow> effects" where
  "after_wait e1 t e2 = then_effects e1 (then_effects \<lparr>gets = 0, sleeps = [t]\<rparr> e2)"

text \<open>A tag name occurs in a node when some tag of its subtree carries it.\<close>

definition occurs :: "string \<Rightarrow> node \<Rightarrow> bool" where
  "occurs nm n = list_ex (named nm) (tags n)"


text \<open>
  The spec's words for the same step, "strip script/style/nav/footer/header/aside
  subtrees": the document without every subtree whose root is a tag of one of the
  names, in one pass. The extractor's loop, one name after the other, is compared with
  it below.
\<close>

fun without :: "string list \<Rightarrow> node \<Rightarrow> node" where
  "without nms (Tag n attrs cs) =
     Tag n attrs (map (without nms) (filter (\<lambda>c. \<not> list_ex (\<lambda>nm. named nm c) nms) cs))"
| "without nms (NavigableString s) = NavigableString s"
| "without nms (OtherString s) = OtherString s"


text \<open>
  The state of a pool in which the active endpoint is the one at the cursor: no
  endpoint, no active one and the cursor at 0; or the cursor at a position of the pool
  and the active endpoint the one at that position.
\<close>

definition pool_ok :: "vpn_manager \<Rightarrow> bool" where
  "pool_ok self =
     (if vpn_configs self = [] then active_vpn self = None \<and> current_vpn_index self = 0
      else current_vpn_index self < length (vpn_configs self)
           \<and> active_vpn self = Some (vpn_configs self ! current_vpn_index self))"

section \<open>Concrete sessions, documents and pools\<close>

text \<open>
  The network of \<open>example_env\<close> answers every GET with the same page; the clock reading
  is the argument. \<open>empty_page_env\<close> answers 200 with an empty body, \<open>flaky_env\<close> fails
  twice before it answers, and in \<open>failed_write_env\<close> the cache file cannot be opened
  for writing. The cached scraper finds one cache file, written at time 0, for
  \<open>https://example.com/\<close>.
\<close>

definition example_env :: "int \<Rightarrow> fetch_env" where
  "example_env now =
     \<lparr>url_valid = True, net = (\<lambda>n. Response 200 ''<html>fresh</html>''),
      actual_delay = Finite 6, now_lookup = now, now_store = now, write_result = Written\<rparr>"

definition empty_page_env :: "int \<Rightarrow> fetch_env" where
  "empty_page_env now =
     \<lparr>url_valid = True, net = (\<lambda>n. Response 200 ''''),
      actual_delay = Finite 6, now_lookup = now, now_store = now, write_result = Written\<rparr>"

definition flaky_env :: "int \<Rightarrow> fetch_env" where
  "flaky_env now =
     \<lparr>url_valid = True,
      net = (\<lambda>n. if n < 3 then NetworkFailure else Response 200 ''<html>fresh</html>''),
      actual_delay = Finite 6, now_lookup = now, now_store = now, write_result = Written\<rparr>"

definition failed_write_env :: "int \<Rightarrow> fetch_env" where
  "failed_write_env now =
     \<lparr>url_valid = True, net = (\<lambda>n. Response 200 ''<html>fresh</html>''),
      actual_delay = Finite 6, now_lookup = now, now_store = now, write_result = OpenFailed\<rparr>"

definition fresh_scraper :: "int \<Rightarrow> safe_scraper" where
  "fresh_scraper limit =
     SafeScraper_init (Finite 5) (Finite 10) limit 30 True (Finite 7) Map.empty"

definition cached_scraper :: "int \<Rightarrow> int \<Rightarrow> safe_scraper" where
  "cached_scraper limit made =
     (SafeScraper_init (Finite 5) (Finite 10) limit 30 True (Finite 7)
        [get_cache_key ''https://example.com/'' \<mapsto>
           CacheData ''https://example.com/'' ''<html>cached</html>'' 0])
     \<lparr>request_count := made\<rparr>"




definition example_vpn :: "string \<Rightarrow> vpn_config" where
  "example_vpn h =
     \<lparr>protocol = ''socks5'', host = h, port = 1080, username = None, password = None,
      enabled = True, name = Some h\<rparr>"

definition example_pool :: vpn_manager where
  "example_pool =
     \<lparr>vpn_configs = [example_vpn ''a.test'', example_vpn ''b.test'', example_vpn ''c.test''],
      current_vpn_index = 1,
      active_vpn = Some (example_vpn ''b.test'')\<rparr>"

text \<open>
  Two managers whose active endpoint is not the one at the cursor. The first is built
  from a file of three endpoints, rotated once, and then loads a file with an empty
  list. The second is built from a file whose second entry has no host.
\<close>

definition reloaded_pool :: vpn_manager where
  "reloaded_pool =
     load_config
       (rotate (VPNManager_init
          (Some (Vpns [Some (example_vpn ''a.test''), Some (example_vpn ''b.test''),
                       Some (example_vpn ''c.test'')]))))
       (Vpns [])"

definition half_loaded_pool :: vpn_manager where
  "half_loaded_pool = VPNManager_init (Some (Vpns [Some (example_vpn ''a.test''), None]))"

section \<open>The retry loop of WebScraper.fetch\_page\<close>

lemma retry_step:
  "tenacity_retry m w fn n =
     (case fn n of
        (Inr v, eff) \<Rightarrow> (Inr v, eff)
      | (Inl e, eff) \<Rightarrow>
          if m \<le> n then (Inl RetryError, eff)
          else (case tenacity_retry m w fn (Suc n) of
                  (r, eff') \<Rightarrow> (r, after_wait eff (w n) eff')))"
  by (subst tenacity_retry.simps)
     (simp add: stop_after_attempt_def after_wait_def split: prod.splits sum.splits)

text \<open>With three attempts allowed, the loop is a cascade over the three outcomes.\<close>

lemma retry3:
  assumes f1: "fn 1 = (r1, e1)" and f2: "fn 2 = (r2, e2)" and f3: "fn 3 = (r3, e3)"
  shows "tenacity_retry 3 w fn 1 =
     (case r1 of Inr v \<Rightarrow> (Inr v, e1)
      | Inl x \<Rightarrow>
         (case r2 of Inr v \<Rightarrow> (Inr v, after_wait e1 (w 1) e2)
          | Inl y \<Rightarrow>
             (case r3 of Inr v \<Rightarrow> (Inr v, after_wait e1 (w 1) (after_wait e2 (w 2) e3))
              | Inl z \<Rightarrow> (Inl RetryError, after_wait e1 (w 1) (after_wait e2 (w 2) e3)))))"
proof -
  have t3: "tenacity_retry 3 w fn 3 =
      (case r3 of Inr v \<Rightarrow> (Inr v, e3) | Inl z \<Rightarrow> (Inl RetryError, e3))"
    by (subst retry_step) (simp add: f3 split: sum.splits)
  have s2: "Suc 2 = 3" by simp
  have t2: "tenacity_retry 3 w fn 2 =
      (case r2 of Inr v \<Rightarrow> (Inr v, e2)
       | Inl y \<Rightarrow> (case r3 of Inr v \<Rightarrow> (Inr v, after_wait e2 (w 2) e3)
                   | Inl z \<Rightarrow> (Inl RetryError, after_wait e2 (w 2) e3)))"
    by (subst retry_step) (simp add: f2 t3 s2 split: sum.splits)
  have s1: "Suc 1 = 2" by simp
  show ?thesis
    by (subst retry_step) (simp only: f1 t2 s1 split: sum.splits prod.splits, simp)
qed

lemma wait_bounds: "4 \<le> wait_exponential 1 4 10 n \<and> wait_exponential 1 4 10 n \<le> 10"
  by (simp add: wait_exponential_def)

lemma body_invalid: "\<not> valid \<Longrightarrow> fetch_page_body self valid resp = (Inr None, no_effects)"
  by (simp add: fetch_page_body_def)

lemma body_fails:
  "valid \<Longrightarrow> attempt_fails resp \<Longrightarrow>
     \<exists>e. fetch_page_body self valid resp = (Inl e, \<lparr>gets = 1, sleeps = []\<rparr>)"
  by (cases resp) (auto simp: fetch_page_body_def attempt_fails_def)

lemma body_ok:
  "valid \<Longrightarrow> \<not> raise_for_status st \<Longrightarrow> py_sleep (delay self) = Inr d \<Longrightarrow>
     fetch_page_body self valid (Response st html)
       = (Inr (Some html), \<lparr>gets = 1, sleeps = [d]\<rparr>)"
  by (simp add: fetch_page_body_def)

lemma body_sleep_raises:
  "valid \<Longrightarrow> py_sleep (delay self) = Inl e \<Longrightarrow>
     \<exists>x. fetch_page_body self valid resp = (Inl x, \<lparr>gets = 1, sleeps = []\<rparr>)"
  by (cases resp) (auto simp: fetch_page_body_def)

lemma body_gets_valid: "valid \<Longrightarrow> gets (snd (fetch_page_body self valid resp)) = 1"
  by (cases resp) (auto simp: fetch_page_body_def split: sum.splits)

lemma body_gets: "gets (snd (fetch_page_body self valid resp)) \<le> 1"
  by (cases resp) (auto simp: fetch_page_body_def no_effects_def split: sum.splits)

lemma py_sleep_example [simp]: "py_sleep (Finite 1) = Inr 1" "py_sleep (Finite 7) = Inr 7"
  "py_sleep (Finite 6) = Inr 6"
  by (simp_all add: py_sleep_def)

lemma fetch_page_cases:
  assumes f1: "fetch_page_body self (url_valid env) (net env 1) = (r1, e1)"
      and f2: "fetch_page_body self (url_valid env) (net env 2) = (r2, e2)"
      and f3: "fetch_page_body self (url_valid env) (net env 3) = (r3, e3)"
  shows "WebScraper_fetch_page self env =
     (case r1 of Inr v \<Rightarrow> (Inr v, e1)
      | Inl x \<Rightarrow>
         (case r2 of Inr v \<Rightarrow> (Inr v, after_wait e1 4 e2)
          | Inl y \<Rightarrow>
             (case r3 of Inr v \<Rightarrow> (Inr v, after_wait e1 4 (after_wait e2 4 e3))
              | Inl z \<Rightarrow> (Inl RetryError, after_wait e1 4 (after_wait e2 4 e3)))))"
  unfolding WebScraper_fetch_page_def
  using retry3[of "\<lambda>n. fetch_page_body self (url_valid env) (net env n)" r1 e1 r2 e2 r3 e3
                  "wait_exponential 1 4 10", OF f1 f2 f3]
  by (simp add: wait_exponential_def split: sum.splits)

lemma fetch_invalid:
  "\<not> url_valid env \<Longrightarrow> WebScraper_fetch_page self env = (Inr None, no_effects)"
  using fetch_page_cases[of self env "Inr None" no_effects "Inr None" no_effects
          "Inr None" no_effects]
  by (simp add: body_invalid)

lemma fetch_first_succeeds:
  assumes v: "url_valid env" and ok: "net env 1 = Response st html" "\<not> raise_for_status st"
    and sl: "py_sleep (delay self) = Inr d"
  shows "WebScraper_fetch_page self env = (Inr (Some html), \<lparr>gets = 1, sleeps = [d]\<rparr>)"
proof -
  have b1: "fetch_page_body self (url_valid env) (net env 1)
              = (Inr (Some html), \<lparr>gets = 1, sleeps = [d]\<rparr>)"
    using body_ok[OF v ok(2) sl] ok(1) by simp
  obtain r2 e2 where b2: "fetch_page_body self (url_valid env) (net env 2) = (r2, e2)"
    by (cases "fetch_page_body self (url_valid env) (net env 2)")
  obtain r3 e3 where b3: "fetch_page_body self (url_valid env) (net env 3) = (r3, e3)"
    by (cases "fetch_page_body self (url_valid env) (net env 3)")
  show ?thesis using fetch_page_cases[OF b1 b2 b3] by simp
qed

lemma fetch_first_fails:
  assumes v: "url_valid env" and f1: "attempt_fails (net env 1)"
  shows "2 \<le> gets (snd (WebScraper_fetch_page self env))
       \<and> take 1 (sleeps (snd (WebScraper_fetch_page self env))) = [4]"
proof -
  obtain x1 where b1: "fetch_page_body self (url_valid env) (net env 1)
                         = (Inl x1, \<lparr>gets = 1, sleeps = []\<rparr>)"
    using body_fails[OF v f1] by blast
  obtain r2 e2 where b2: "fetch_page_body self (url_valid env) (net env 2) = (r2, e2)"
    by (cases "fetch_page_body self (url_valid env) (net env 2)")
  obtain r3 e3 where b3: "fetch_page_body self (url_valid env) (net env 3) = (r3, e3)"
    by (cases "fetch_page_body self (url_valid env) (net env 3)")
  have "gets e2 = 1" using body_gets_valid[OF v, of self "net env 2"] b2 by simp
  then show ?thesis
    using fetch_page_cases[OF b1 b2 b3]
    by (simp add: after_wait_def then_effects_def split: sum.splits)
qed

lemma fetch_two_failures:
  assumes v: "url_valid env"
    and f1: "attempt_fails (net env 1)" and f2: "attempt_fails (net env 2)"
  shows "gets (snd (WebScraper_fetch_page self env)) = 3
       \<and> take 2 (sleeps (snd (WebScraper_fetch_page self env))) = [4, 4]"
proof -
  obtain x1 where b1: "fetch_page_body self (url_valid env) (net env 1)
                         = (Inl x1, \<lparr>gets = 1, sleeps = []\<rparr>)"
    using body_fails[OF v f1] by blast
  obtain x2 where b2: "fetch_page_body self (url_valid env) (net env 2)
                         = (Inl x2, \<lparr>gets = 1, sleeps = []\<rparr>)"
    using body_fails[OF v f2] by blast
  obtain r3 e3 where b3: "fetch_page_body self (url_valid env) (net env 3) = (r3, e3)"
    by (cases "fetch_page_body self (url_valid env) (net env 3)")
  have "gets e3 = 1" using body_gets_valid[OF v, of self "net env 3"] b3 by simp
  then show ?thesis
    using fetch_page_cases[OF b1 b2 b3]
    by (simp add: after_wait_def then_effects_def split: sum.splits)
qed

lemma fetch_three_failures:
  assumes v: "url_valid env"
    and f1: "attempt_fails (net env 1)" and f2: "attempt_fails (net env 2)"
    and f3: "attempt_fails (net env 3)"
  shows "WebScraper_fetch_page self env = (Inl RetryError, \<lparr>gets = 3, sleeps = [4, 4]\<rparr>)"
proof -
  obtain x1 where b1: "fetch_page_body self (url_valid env) (net env 1)
                         = (Inl x1, \<lparr>gets = 1, sleeps = []\<rparr>)"
    using body_fails[OF v f1] by blast
  obtain x2 where b2: "fetch_page_body self (url_valid env) (net env 2)
                         = (Inl x2, \<lparr>gets = 1, sleeps = []\<rparr>)"
    using body_fails[OF v f2] by blast
  obtain x3 where b3: "fetch_page_body self (url_valid env) (net env 3)
                         = (Inl x3, \<lparr>gets = 1, sleeps = []\<rparr>)"
    using body_fails[OF v f3] by blast
  show ?thesis
    using fetch_page_cases[OF b1 b2 b3] by (simp add: after_wait_def then_effects_def)
qed

lemma fetch_second_succeeds:
  assumes v: "url_valid env"
    and f1: "attempt_fails (net env 1)"
    and ok: "net env 2 = Response st html" "\<not> raise_for_status st"
    and sl: "py_sleep (delay self) = Inr d"
  shows "WebScraper_fetch_page self env
           = (Inr (Some html), \<lparr>gets = 2, sleeps = [4, d]\<rparr>)"
proof -
  obtain x1 where b1: "fetch_page_body self (url_valid env) (net env 1)
                         = (Inl x1, \<lparr>gets = 1, sleeps = []\<rparr>)"
    using body_fails[OF v f1] by blast
  have b2: "fetch_page_body self (url_valid env) (net env 2)
              = (Inr (Some html), \<lparr>gets = 1, sleeps = [d]\<rparr>)"
    using body_ok[OF v ok(2) sl] ok(1) by simp
  obtain r3 e3 where b3: "fetch_page_body self (url_valid env) (net env 3) = (r3, e3)"
    by (cases "fetch_page_body self (url_valid env) (net env 3)")
  show ?thesis
    using fetch_page_cases[OF b1 b2 b3] by (simp add: after_wait_def then_effects_def)
qed

lemma fetch_third_succeeds:
  assumes v: "url_valid env"
    and f1: "attempt_fails (net env 1)" and f2: "attempt_fails (net env 2)"
    and ok: "net env 3 = Response st html" "\<not> raise_for_status st"
    and sl: "py_sleep (delay self) = Inr d"
  shows "WebScraper_fetch_page self env
           = (Inr (Some html), \<lparr>gets = 3, sleeps = [4, 4, d]\<rparr>)"
proof -
  obtain x1 where b1: "fetch_page_body self (url_valid env) (net env 1)
                         = (Inl x1, \<lparr>gets = 1, sleeps = []\<rparr>)"
    using body_fails[OF v f1] by blast
  obtain x2 where b2: "fetch_page_body self (url_valid env) (net env 2)
                         = (Inl x2, \<lparr>gets = 1, sleeps = []\<rparr>)"
    using body_fails[OF v f2] by blast
  have b3: "fetch_page_body self (url_valid env) (net env 3)
              = (Inr (Some html), \<lparr>gets = 1, sleeps = [d]\<rparr>)"
    using body_ok[OF v ok(2) sl] ok(1) by simp
  show ?thesis
    using fetch_page_cases[OF b1 b2 b3] by (simp add: after_wait_def then_effects_def)
qed

text \<open>
  When \<open>time.sleep(self.delay)\<close> raises, no attempt of a valid URL returns, and the call
  ends in \<open>RetryError\<close>.
\<close>

lemma fetch_sleep_raises:
  assumes v: "url_valid env" and sl: "py_sleep (delay self) = Inl e"
  shows "fst (WebScraper_fetch_page self env) = Inl RetryError"
proof -
  obtain x1 where b1: "fetch_page_body self (url_valid env) (net env 1)
                         = (Inl x1, \<lparr>gets = 1, sleeps = []\<rparr>)"
    using body_sleep_raises[OF v sl] by blast
  obtain x2 where b2: "fetch_page_body self (url_valid env) (net env 2)
                         = (Inl x2, \<lparr>gets = 1, sleeps = []\<rparr>)"
    using body_sleep_raises[OF v sl] by blast
  obtain x3 where b3: "fetch_page_body self (url_valid env) (net env 3)
                         = (Inl x3, \<lparr>gets = 1, sleeps = []\<rparr>)"
    using body_sleep_raises[OF v sl] by blast
  show ?thesis using fetch_page_cases[OF b1 b2 b3] by simp
qed

lemma fetch_gets: "gets (snd (WebScraper_fetch_page self env)) \<le> 3"
proof -
  obtain r1 e1 where b1: "fetch_page_body self (url_valid env) (net env 1) = (r1, e1)"
    by (cases "fetch_page_body self (url_valid env) (net env 1)")
  obtain r2 e2 where b2: "fetch_page_body self (url_valid env) (net env 2) = (r2, e2)"
    by (cases "fetch_page_body self (url_valid env) (net env 2)")
  obtain r3 e3 where b3: "fetch_page_body self (url_valid env) (net env 3) = (r3, e3)"
    by (cases "fetch_page_body self (url_valid env) (net env 3)")
  have "gets e1 \<le> 1" "gets e2 \<le> 1" "gets e3 \<le> 1"
    using body_gets[of self "url_valid env" "net env 1"]
      body_gets[of self "url_valid env" "net env 2"]
      body_gets[of self "url_valid env" "net env 3"] b1 b2 b3 by simp_all
  then show ?thesis
    using fetch_page_cases[OF b1 b2 b3]
    by (simp add: after_wait_def then_effects_def split: sum.splits)
qed

text \<open>
  C1 (the code departs from the claim). The claim: a fetch never raises to its caller,
  every outcome is a returned value. The docstring of \<open>fetch_page\<close> promises
  "HTML content as string or None if failed" and \<open>scrape_page\<close> turns a falsy result
  into an error dictionary, but when the network fails on all three attempts the
  decorator raises \<open>RetryError\<close>, which \<open>fetch_page\<close> and then \<open>scrape_page\<close> pass to
  their callers after three GETs and two waits of four seconds.
\<close>

theorem fetch_page_raises_RetryError:
  "WebScraper_fetch_page \<lparr>delay = Finite 1, timeout = 30\<rparr>
     \<lparr>url_valid = True, net = (\<lambda>n. NetworkFailure)\<rparr>
   = (Inl RetryError, \<lparr>gets = 3, sleeps = [4, 4]\<rparr>)
 \<and> scrape_page lib parse_html \<lparr>delay = Finite 1, timeout = 30\<rparr>
     \<lparr>url_valid = True, net = (\<lambda>n. NetworkFailure)\<rparr> ''https://example.com/'' now
   = (Inl RetryError, \<lparr>gets = 3, sleeps = [4, 4]\<rparr>)"
  by (simp add: scrape_page_def fetch_three_failures attempt_fails_def)

text \<open>
  C5 as stated fails: a 4xx status other than 429 is not given up at once. Every GET
  of a valid URL that answers 404 is retried; the call issues three GETs and waits four
  seconds twice.
\<close>

theorem http_404_is_retried:
  "WebScraper_fetch_page \<lparr>delay = Finite 1, timeout = 30\<rparr>
     \<lparr>url_valid = True, net = (\<lambda>n. Response 404 ''Not Found'')\<rparr>
   = (Inl RetryError, \<lparr>gets = 3, sleeps = [4, 4]\<rparr>)"
  by (simp add: fetch_three_failures attempt_fails_def raise_for_status_def)

text \<open>
  C5, amended. A malformed URL makes \<open>fetch_page\<close> return \<open>None\<close> at once, with no
  GET and no retry. For a valid URL every attempt that fails is retried, whatever made
  it fail (a timeout or connection error, or any status from 400 to 599: 5xx, 429 and
  every other 4xx alike), up to three attempts in all: after a failed first attempt
  there is a second GET, after two failures a third and no more, and a call never
  issues more than three GETs. The wait before the second and before the third attempt
  is \<open>wait_exponential(multiplier=1, min=4, max=10)\<close>, four seconds each time, within
  the bounds 4 and 10. A retry that gets the page returns it (when the scraper's delay
  is one \<open>time.sleep\<close> accepts).
\<close>

theorem every_failure_is_retried:
  "(\<not> url_valid env \<longrightarrow> WebScraper_fetch_page self env = (Inr None, no_effects))
 \<and> (url_valid env \<and> attempt_fails (net env 1)
      \<longrightarrow> 2 \<le> gets (snd (WebScraper_fetch_page self env))
          \<and> take 1 (sleeps (snd (WebScraper_fetch_page self env))) = [4])
 \<and> (url_valid env \<and> attempt_fails (net env 1) \<and> attempt_fails (net env 2)
      \<longrightarrow> gets (snd (WebScraper_fetch_page self env)) = 3
          \<and> take 2 (sleeps (snd (WebScraper_fetch_page self env))) = [4, 4])
 \<and> (url_valid env \<and> attempt_fails (net env 1)
      \<and> net env 2 = Response st html \<and> \<not> raise_for_status st \<and> py_sleep (delay self) = Inr d
      \<longrightarrow> WebScraper_fetch_page self env
            = (Inr (Some html), \<lparr>gets = 2, sleeps = [4, d]\<rparr>))
 \<and> (url_valid env \<and> attempt_fails (net env 1) \<and> attempt_fails (net env 2)
      \<and> net env 3 = Response st html \<and> \<not> raise_for_status st \<and> py_sleep (delay self) = Inr d
      \<longrightarrow> WebScraper_fetch_page self env
            = (Inr (Some html), \<lparr>gets = 3, sleeps = [4, 4, d]\<rparr>))
 \<and> gets (snd (WebScraper_fetch_page self env)) \<le> 3
 \<and> 4 \<le> wait_exponential 1 4 10 n \<and> wait_exponential 1 4 10 n \<le> 10"
  using fetch_invalid[of env self] fetch_first_fails[of env self]
    fetch_two_failures[of env self]
    fetch_second_succeeds[of env st html self d] fetch_third_succeeds[of env st html self d]
    fetch_gets[of self env] wait_bounds[of n]
  by blast

theorem every_failure_is_retried_witness:
  "WebScraper_fetch_page \<lparr>delay = Finite 1, timeout = 30\<rparr>
     \<lparr>url_valid = False, net = (\<lambda>n. Response 200 ''ok'')\<rparr> = (Inr None, no_effects)
 \<and> attempt_fails (Response 404 ''Not Found'') \<and> attempt_fails (Response 429 ''Slow down'')
 \<and> attempt_fails (Response 503 ''Unavailable'') \<and> attempt_fails NetworkFailure
 \<and> py_sleep (Finite 1) = Inr 1
 \<and> gets (snd (WebScraper_fetch_page \<lparr>delay = Finite 1, timeout = 30\<rparr>
     \<lparr>url_valid = True,
      net = (\<lambda>n. if n = 1 then Response 404 ''Not Found''
                  else if n = 2 then NetworkFailure else Response 429 ''Slow down'')\<rparr>)) = 3
 \<and> WebScraper_fetch_page \<lparr>delay = Finite 1, timeout = 30\<rparr>
     \<lparr>url_valid = True,
      net = (\<lambda>n. if n = 1 then Response 404 ''Not Found''
                  else if n = 2 then Response 503 ''Unavailable'' else Response 200 ''ok'')\<rparr>
   = (Inr (Some ''ok''), \<lparr>gets = 3, sleeps = [4, 4, 1]\<rparr>)"
  using every_failure_is_retried[of "\<lparr>url_valid = False, net = (\<lambda>n. Response 200 ''ok'')\<rparr>"
          "\<lparr>delay = Finite 1, timeout = 30\<rparr>"]
    every_failure_is_retried[of
          "\<lparr>url_valid = True,
            net = (\<lambda>n. if n = 1 then Response 404 ''Not Found''
                        else if n = 2 then NetworkFailure else Response 429 ''Slow down'')\<rparr>"
          "\<lparr>delay = Finite 1, timeout = 30\<rparr>"]
    every_failure_is_retried[of
          "\<lparr>url_valid = True,
            net = (\<lambda>n. if n = 1 then Response 404 ''Not Found''
                        else if n = 2 then Response 503 ''Unavailable'' else Response 200 ''ok'')\<rparr>"
          "\<lparr>delay = Finite 1, timeout = 30\<rparr>" 200 "''ok''" 1]
  by (simp add: attempt_fails_def raise_for_status_def)

section \<open>SafeScraper: budget and cache\<close>

lemma exhausted_fetch:
  "request_count self \<ge> max_requests self \<Longrightarrow>
     SafeScraper_fetch_page self url env = (Inr None, self, no_effects)"
  by (simp add: SafeScraper_fetch_page_def)

lemma exhausted_session:
  "request_count self \<ge> max_requests self \<Longrightarrow>
     session_results self calls = replicate (length calls) (Inr None)
     \<and> run_session self calls = self"
  by (induction calls) (auto simp: exhausted_fetch)

lemma save_to_cache_fields [simp]:
  "request_count (save_to_cache self url html now w) = request_count self"
  "max_requests (save_to_cache self url html now w) = max_requests self"
  "cache_enabled (save_to_cache self url html now w) = cache_enabled self"
  by (simp_all add: save_to_cache_def split: write_outcome.splits)





lemma fresh_entry_lookup:
  assumes "cache_enabled self"
    and "cache_dir self (get_cache_key url) = Some (CacheData u html t)"
    and "now - t \<le> timedelta_hours 24"
  shows "get_cached_response self url now = Some html"
  using assms by (simp add: get_cached_response_def)

lemma physical_fetch:
  assumes "SafeScraper_fetch_page self url env = (Inr (Some html), self1, eff)"
    and "0 < gets eff" and "html \<noteq> []"
  shows "self1 = save_to_cache (self\<lparr>request_count := request_count self + 1\<rparr>) url html
                   (now_store env) (write_result env)"
    and "gets eff = gets (snd (WebScraper_fetch_page self env))"
    and "fst (WebScraper_fetch_page self env) = Inr (Some html)"
  using assms
  by (auto simp: SafeScraper_fetch_page_def Let_def py_truthy_def no_effects_def
        then_effects_def split: if_splits prod.splits sum.splits option.splits)

text \<open>A fetch that returned the page issued one GET if its first attempt did not fail.\<close>

lemma returned_after_first_attempt:
  assumes r: "fst (WebScraper_fetch_page self env) = Inr (Some html)"
    and ok: "\<not> attempt_fails (net env 1)"
  shows "gets (snd (WebScraper_fetch_page self env)) = 1"
proof -
  have v: "url_valid env"
  proof (rule ccontr)
    assume "\<not> url_valid env"
    from fetch_invalid[OF this, of self] r show False by simp
  qed
  obtain st body where n1: "net env 1 = Response st body" and st: "\<not> raise_for_status st"
    using ok by (cases "net env 1") (auto simp: attempt_fails_def)
  show ?thesis
  proof (cases "py_sleep (delay self)")
    case (Inl e)
    from fetch_sleep_raises[OF v Inl] r show ?thesis by simp
  next
    case (Inr d)
    from fetch_first_succeeds[OF v n1 st Inr] show ?thesis by simp
  qed
qed

lemma fresh_scraper_fields:
  "request_count (fresh_scraper limit) = 0" "max_requests (fresh_scraper limit) = limit"
  "cache_enabled (fresh_scraper limit)" "cache_dir (fresh_scraper limit) = Map.empty"
  "delay (fresh_scraper limit) = Finite 7"
  by (simp_all add: fresh_scraper_def SafeScraper_init_def)

lemma fresh_scraper_miss:
  "get_cached_response (fresh_scraper limit) url now = None"
  by (simp add: get_cached_response_def fresh_scraper_fields)

lemma example_first_fetch:
  "SafeScraper_fetch_page (fresh_scraper limit) ''https://example.com/'' (example_env now)
     = (if limit \<le> 0 then (Inr None, fresh_scraper limit, no_effects)
        else (Inr (Some ''<html>fresh</html>''),
              (fresh_scraper limit)
                \<lparr>request_count := 1,
                 cache_dir := [get_cache_key ''https://example.com/'' \<mapsto>
                     CacheData ''https://example.com/'' ''<html>fresh</html>'' now]\<rparr>,
              \<lparr>gets = 1, sleeps = [7]\<rparr>))"
proof -
  have w: "WebScraper_fetch_page (fresh_scraper limit) (example_env now)
             = (Inr (Some ''<html>fresh</html>''), \<lparr>gets = 1, sleeps = [7]\<rparr>)"
    using fetch_first_succeeds[of "example_env now" 200 "''<html>fresh</html>''"
            "fresh_scraper limit" 7]
    by (simp add: example_env_def fresh_scraper_fields raise_for_status_def)
  have e: "now_store (example_env now) = now" "write_result (example_env now) = Written"
    by (simp_all add: example_env_def)
  show ?thesis
    by (simp add: SafeScraper_fetch_page_def w fresh_scraper_miss fresh_scraper_fields e
          py_truthy_def save_to_cache_def then_effects_def no_effects_def)
qed

text \<open>The same call when the page is empty, when the network fails twice first, and
  when the cache file cannot be written.\<close>

lemma empty_page_fetch:
  "0 < limit \<Longrightarrow>
   SafeScraper_fetch_page (fresh_scraper limit) ''https://example.com/'' (empty_page_env now)
     = (Inr (Some []), fresh_scraper limit, \<lparr>gets = 1, sleeps = [7]\<rparr>)"
proof -
  assume l: "0 < limit"
  have w: "WebScraper_fetch_page (fresh_scraper limit) (empty_page_env now)
             = (Inr (Some []), \<lparr>gets = 1, sleeps = [7]\<rparr>)"
    using fetch_first_succeeds[of "empty_page_env now" 200 "[]" "fresh_scraper limit" 7]
    by (simp add: empty_page_env_def fresh_scraper_fields raise_for_status_def)
  show ?thesis
    using l
    by (simp add: SafeScraper_fetch_page_def w fresh_scraper_miss fresh_scraper_fields
          py_truthy_def then_effects_def no_effects_def)
qed

lemma flaky_fetch:
  "0 < limit \<Longrightarrow>
   SafeScraper_fetch_page (fresh_scraper limit) ''https://example.com/'' (flaky_env now)
     = (Inr (Some ''<html>fresh</html>''),
        (fresh_scraper limit)
          \<lparr>request_count := 1,
           cache_dir := [get_cache_key ''https://example.com/'' \<mapsto>
               CacheData ''https://example.com/'' ''<html>fresh</html>'' now]\<rparr>,
        \<lparr>gets = 3, sleeps = [4, 4, 7]\<rparr>)"
proof -
  assume l: "0 < limit"
  have w: "WebScraper_fetch_page (fresh_scraper limit) (flaky_env now)
             = (Inr (Some ''<html>fresh</html>''), \<lparr>gets = 3, sleeps = [4, 4, 7]\<rparr>)"
    using fetch_third_succeeds[of "flaky_env now" 200 "''<html>fresh</html>''"
            "fresh_scraper limit" 7]
    by (simp add: flaky_env_def fresh_scraper_fields raise_for_status_def attempt_fails_def)
  have e: "now_store (flaky_env now) = now" "write_result (flaky_env now) = Written"
    by (simp_all add: flaky_env_def)
  show ?thesis
    using l
    by (simp add: SafeScraper_fetch_page_def w fresh_scraper_miss fresh_scraper_fields e
          py_truthy_def save_to_cache_def then_effects_def no_effects_def)
qed

lemma failed_write_fetch:
  "0 < limit \<Longrightarrow>
   SafeScraper_fetch_page (fresh_scraper limit) ''https://example.com/'' (failed_write_env now)
     = (Inr (Some ''<html>fresh</html>''), (fresh_scraper limit)\<lparr>request_count := 1\<rparr>,
        \<lparr>gets = 1, sleeps = [7]\<rparr>)"
proof -
  assume l: "0 < limit"
  have w: "WebScraper_fetch_page (fresh_scraper limit) (failed_write_env now)
             = (Inr (Some ''<html>fresh</html>''), \<lparr>gets = 1, sleeps = [7]\<rparr>)"
    using fetch_first_succeeds[of "failed_write_env now" 200 "''<html>fresh</html>''"
            "fresh_scraper limit" 7]
    by (simp add: failed_write_env_def fresh_scraper_fields raise_for_status_def)
  have e: "write_result (failed_write_env now) = OpenFailed"
    by (simp add: failed_write_env_def)
  show ?thesis
    using l
    by (simp add: SafeScraper_fetch_page_def w fresh_scraper_miss fresh_scraper_fields e
          py_truthy_def save_to_cache_def then_effects_def no_effects_def)
qed

lemma after_failed_write_fetch:
  "1 < limit \<Longrightarrow>
   SafeScraper_fetch_page ((fresh_scraper limit)\<lparr>request_count := 1\<rparr>)
       ''https://example.com/'' (example_env now)
     = (Inr (Some ''<html>fresh</html>''),
        (fresh_scraper limit)
          \<lparr>request_count := 2,
           cache_dir := [get_cache_key ''https://example.com/'' \<mapsto>
               CacheData ''https://example.com/'' ''<html>fresh</html>'' now]\<rparr>,
        \<lparr>gets = 1, sleeps = [6, 7]\<rparr>)"
proof -
  assume l: "1 < limit"
  let ?s = "(fresh_scraper limit)\<lparr>request_count := 1\<rparr>"
  have w: "WebScraper_fetch_page ?s (example_env now)
             = (Inr (Some ''<html>fresh</html>''), \<lparr>gets = 1, sleeps = [7]\<rparr>)"
    using fetch_first_succeeds[of "example_env now" 200 "''<html>fresh</html>''" ?s 7]
    by (simp add: example_env_def fresh_scraper_fields raise_for_status_def)
  have c: "get_cached_response ?s ''https://example.com/'' (now_lookup (example_env now)) = None"
    by (simp add: get_cached_response_def fresh_scraper_fields)
  have e: "now_store (example_env now) = now" "write_result (example_env now) = Written"
      "actual_delay (example_env now) = Finite 6"
    by (simp_all add: example_env_def)
  show ?thesis
    using l
    by (simp add: SafeScraper_fetch_page_def w c fresh_scraper_fields e
          py_truthy_def save_to_cache_def then_effects_def no_effects_def)
qed

text \<open>
  C4. Once \<open>request_count >= max_requests\<close>, every further \<open>fetch_page\<close> call returns
  \<open>None\<close> at once, without a GET, a sleep or a change of state, whatever the cache
  holds for the URL: the limit is checked before the cache is looked at. So does every
  call of any later sequence of calls.
\<close>

theorem budget_exhausted_fails_fast:
  assumes "request_count self \<ge> max_requests self"
  shows "SafeScraper_fetch_page self url env = (Inr None, self, no_effects)
       \<and> session_results self calls = replicate (length calls) (Inr None)
       \<and> run_session self calls = self"
  using assms exhausted_session[of self calls] by (simp add: exhausted_fetch)

theorem budget_exhausted_fails_fast_witness:
  "request_count (cached_scraper 1 1) \<ge> max_requests (cached_scraper 1 1)
 \<and> cache_dir (cached_scraper 1 1) (get_cache_key ''https://example.com/'')
      = Some (CacheData ''https://example.com/'' ''<html>cached</html>'' 0)
 \<and> SafeScraper_fetch_page (cached_scraper 1 1) ''https://example.com/'' (example_env 1000)
      = (Inr None, cached_scraper 1 1, no_effects)
 \<and> session_results (cached_scraper 1 1)
      [(''https://example.com/'', example_env 2000), (''https://example.com/a'', example_env 3000)]
      = [Inr None, Inr None]"
  using budget_exhausted_fails_fast[of "cached_scraper 1 1" "''https://example.com/''"
          "example_env 1000"
          "[(''https://example.com/'', example_env 2000),
            (''https://example.com/a'', example_env 3000)]"]
  by (simp add: cached_scraper_def SafeScraper_init_def)



text \<open>
  C3 as stated fails: with the limit reached, a fresh cache entry for the URL is not
  returned. The scraper below has made its one allowed request and holds a fresh entry
  for the URL; \<open>fetch_page\<close> returns \<open>None\<close>.
\<close>

theorem exhausted_budget_hides_cache:
  "get_cached_response (cached_scraper 1 1) ''https://example.com/''
      (now_lookup (example_env 1000)) = Some ''<html>cached</html>''
 \<and> request_count (cached_scraper 1 1) \<ge> max_requests (cached_scraper 1 1)
 \<and> SafeScraper_fetch_page (cached_scraper 1 1) ''https://example.com/'' (example_env 1000)
     = (Inr None, cached_scraper 1 1, no_effects)"
  by (simp add: cached_scraper_def SafeScraper_init_def example_env_def timedelta_hours_def
      get_cached_response_def SafeScraper_fetch_page_def)

text \<open>
  C3, amended. For a URL whose key has a fresh (at most 24 hours old), non-empty cache
  entry, with caching enabled: while \<open>request_count < max_requests\<close>, \<open>fetch_page\<close> returns
  the cached content at once, with no GET, no sleep and no change of the counter; once
  \<open>request_count >= max_requests\<close> it returns \<open>None\<close> instead, since the limit is checked
  before the cache.
\<close>

theorem cache_hit_within_budget:
  assumes "cache_enabled self"
    and "cache_dir self (get_cache_key url) = Some (CacheData u html t)"
    and "now_lookup env - t \<le> timedelta_hours 24"
    and "html \<noteq> []"
  shows "SafeScraper_fetch_page self url env =
           (if request_count self < max_requests self
            then (Inr (Some html), self, no_effects)
            else (Inr None, self, no_effects))"
  using fresh_entry_lookup[OF assms(1-3)] assms(4)
  by (simp add: SafeScraper_fetch_page_def py_truthy_def)

theorem cache_hit_within_budget_witness:
  "cache_enabled (cached_scraper 1 0)
 \<and> cache_dir (cached_scraper 1 0) (get_cache_key ''https://example.com/'')
      = Some (CacheData ''https://example.com/'' ''<html>cached</html>'' 0)
 \<and> now_lookup (example_env 1000) - 0 \<le> timedelta_hours 24
 \<and> ''<html>cached</html>'' \<noteq> []
 \<and> SafeScraper_fetch_page (cached_scraper 1 0) ''https://example.com/'' (example_env 1000)
      = (Inr (Some ''<html>cached</html>''), cached_scraper 1 0, no_effects)"
  using cache_hit_within_budget[of "cached_scraper 1 0" "''https://example.com/''"
          "''https://example.com/''" "''<html>cached</html>''" 0 "example_env 1000"]
  by (simp add: cached_scraper_def SafeScraper_init_def example_env_def timedelta_hours_def)

text \<open>
  C2 as stated fails. With caching enabled, the limit far away and both calls within a
  minute: when the page comes back empty, the first call stores nothing and the second
  call goes to the network again, so two calls issue two GETs and the second returns no
  cached content; when the cache file cannot be written, the second call fetches the
  page again, sleeps its inter-request delay and adds to the counter a second time; and
  when the network fails twice before it answers, the first call alone issues three
  GETs.
\<close>

theorem second_fetch_goes_to_network:
  "cache_enabled (fresh_scraper 50)
 \<and> request_count (fresh_scraper 50) < max_requests (fresh_scraper 50)
 \<and> now_lookup (empty_page_env 60000000) - now_store (empty_page_env 0) \<le> timedelta_hours 24
 \<and> SafeScraper_fetch_page (fresh_scraper 50) ''https://example.com/'' (empty_page_env 0)
     = (Inr (Some []), fresh_scraper 50, \<lparr>gets = 1, sleeps = [7]\<rparr>)
 \<and> SafeScraper_fetch_page (fresh_scraper 50) ''https://example.com/'' (empty_page_env 60000000)
     = (Inr (Some []), fresh_scraper 50, \<lparr>gets = 1, sleeps = [7]\<rparr>)
 \<and> SafeScraper_fetch_page (fresh_scraper 50) ''https://example.com/'' (failed_write_env 0)
     = (Inr (Some ''<html>fresh</html>''), (fresh_scraper 50)\<lparr>request_count := 1\<rparr>,
        \<lparr>gets = 1, sleeps = [7]\<rparr>)
 \<and> SafeScraper_fetch_page ((fresh_scraper 50)\<lparr>request_count := 1\<rparr>)
       ''https://example.com/'' (example_env 60000000)
     = (Inr (Some ''<html>fresh</html>''),
        (fresh_scraper 50)
          \<lparr>request_count := 2,
           cache_dir := [get_cache_key ''https://example.com/'' \<mapsto>
               CacheData ''https://example.com/'' ''<html>fresh</html>'' 60000000]\<rparr>,
        \<lparr>gets = 1, sleeps = [6, 7]\<rparr>)
 \<and> gets (snd (snd (SafeScraper_fetch_page (fresh_scraper 50) ''https://example.com/''
                      (flaky_env 0)))) = 3"
proof -
  have ttl: "now_lookup (empty_page_env 60000000) - now_store (empty_page_env 0)
               \<le> timedelta_hours 24"
    by (simp add: empty_page_env_def timedelta_hours_def)
  show ?thesis
    using ttl
    by (simp add: empty_page_fetch failed_write_fetch after_failed_write_fetch flaky_fetch
          fresh_scraper_fields)
qed

text \<open>
  C2, amended. Caching is enabled. A first \<open>fetch_page\<close> call for the URL goes to the
  network, returns non-empty content and its cache file is written; the limit is not
  reached when the second call is made, and the second call looks the cache up at most
  24 hours after the entry was written. Then the second call returns that content from
  the cache: it issues no GET, does not sleep, and leaves the counter (and the whole
  scraper) unchanged. Over both calls the counter went up by one, and the only GETs are
  those of the first call: one when its first attempt did not fail, never more than
  three.
\<close>

theorem second_fetch_served_from_cache:
  assumes "cache_enabled self"
    and "SafeScraper_fetch_page self url env1 = (Inr (Some html), self1, eff1)"
    and "0 < gets eff1"
    and "html \<noteq> []"
    and "write_result env1 = Written"
    and "request_count self1 < max_requests self1"
    and "now_lookup env2 - now_store env1 \<le> timedelta_hours 24"
  shows "SafeScraper_fetch_page self1 url env2 = (Inr (Some html), self1, no_effects)
       \<and> gets no_effects = 0 \<and> sleeps no_effects = []
       \<and> request_count self1 = request_count self + 1
       \<and> gets eff1 \<le> 3
       \<and> (\<not> attempt_fails (net env1 1) \<longrightarrow> gets eff1 = 1)"
proof -
  have s1: "self1 = save_to_cache (self\<lparr>request_count := request_count self + 1\<rparr>) url html
                     (now_store env1) Written"
    using physical_fetch(1)[OF assms(2,3,4)] assms(5) by simp
  have en: "cache_enabled self1" using s1 assms(1) by simp
  have entry: "cache_dir self1 (get_cache_key url) = Some (CacheData url html (now_store env1))"
    using s1 assms(1) by (simp add: save_to_cache_def)
  have hit: "SafeScraper_fetch_page self1 url env2 = (Inr (Some html), self1, no_effects)"
    using fresh_entry_lookup[OF en entry assms(7)] assms(4,6)
    by (simp add: SafeScraper_fetch_page_def py_truthy_def)
  have cnt: "request_count self1 = request_count self + 1" using s1 by simp
  have g3: "gets eff1 \<le> 3"
    using physical_fetch(2)[OF assms(2,3,4)] fetch_gets[of self env1] by simp
  have g1: "gets eff1 = 1" if "\<not> attempt_fails (net env1 1)"
    using returned_after_first_attempt[OF physical_fetch(3)[OF assms(2,3,4)] that]
      physical_fetch(2)[OF assms(2,3,4)] by simp
  from hit cnt g3 g1 show ?thesis by (simp add: no_effects_def)
qed

theorem second_fetch_served_from_cache_witness:
  "cache_enabled (fresh_scraper 50)
 \<and> SafeScraper_fetch_page (fresh_scraper 50) ''https://example.com/'' (example_env 0)
     = (Inr (Some ''<html>fresh</html>''),
        (fresh_scraper 50)
          \<lparr>request_count := 1,
           cache_dir := [get_cache_key ''https://example.com/'' \<mapsto>
               CacheData ''https://example.com/'' ''<html>fresh</html>'' 0]\<rparr>,
        \<lparr>gets = 1, sleeps = [7]\<rparr>)
 \<and> write_result (example_env 0) = Written
 \<and> \<not> attempt_fails (net (example_env 0) 1)
 \<and> now_lookup (example_env 3600000000) - now_store (example_env 0) \<le> timedelta_hours 24
 \<and> SafeScraper_fetch_page
      ((fresh_scraper 50)
          \<lparr>request_count := 1,
           cache_dir := [get_cache_key ''https://example.com/'' \<mapsto>
               CacheData ''https://example.com/'' ''<html>fresh</html>'' 0]\<rparr>)
      ''https://example.com/'' (example_env 3600000000)
     = (Inr (Some ''<html>fresh</html>''),
        (fresh_scraper 50)
          \<lparr>request_count := 1,
           cache_dir := [get_cache_key ''https://example.com/'' \<mapsto>
               CacheData ''https://example.com/'' ''<html>fresh</html>'' 0]\<rparr>,
        no_effects)"
proof -
  let ?s1 = "(fresh_scraper 50)
          \<lparr>request_count := 1,
           cache_dir := [get_cache_key ''https://example.com/'' \<mapsto>
               CacheData ''https://example.com/'' ''<html>fresh</html>'' 0]\<rparr>"
  have first: "SafeScraper_fetch_page (fresh_scraper 50) ''https://example.com/'' (example_env 0)
     = (Inr (Some ''<html>fresh</html>''), ?s1, \<lparr>gets = 1, sleeps = [7]\<rparr>)"
    using example_first_fetch[of 50 0] by simp
  have en: "cache_enabled (fresh_scraper 50)" by (simp add: fresh_scraper_fields)
  have w: "write_result (example_env 0) = Written" by (simp add: example_env_def)
  have a: "\<not> attempt_fails (net (example_env 0) 1)"
    by (simp add: example_env_def attempt_fails_def raise_for_status_def)
  have b: "request_count ?s1 < max_requests ?s1" by (simp add: fresh_scraper_fields)
  have ttl: "now_lookup (example_env 3600000000) - now_store (example_env 0) \<le> timedelta_hours 24"
    by (simp add: example_env_def timedelta_hours_def)
  from second_fetch_served_from_cache[OF en first _ _ w b ttl]
  have "SafeScraper_fetch_page ?s1 ''https://example.com/'' (example_env 3600000000)
          = (Inr (Some ''<html>fresh</html>''), ?s1, no_effects)"
    by simp
  with en first w a ttl show ?thesis by simp
qed

section \<open>VPNManager.rotate\_vpn\<close>

lemma rotate_nonempty:
  "vpn_configs self \<noteq> [] \<Longrightarrow>
     rotate self =
       self\<lparr>current_vpn_index := (current_vpn_index self + 1) mod length (vpn_configs self),
            active_vpn := Some (vpn_configs self !
                                ((current_vpn_index self + 1) mod length (vpn_configs self)))\<rparr>"
  by (simp add: rotate_def rotate_vpn_def Let_def)

lemma rotate_configs [simp]: "vpn_configs (rotate self) = vpn_configs self"
  by (simp add: rotate_def rotate_vpn_def Let_def)

lemma rotate_pow_configs [simp]: "vpn_configs ((rotate ^^ j) self) = vpn_configs self"
  by (induction j) simp_all

lemma rotate_pow_more: "vpn_manager.more ((rotate ^^ j) self) = vpn_manager.more self"
  by (induction j) (simp_all add: rotate_def rotate_vpn_def Let_def)

lemma rotate_pow_index:
  "vpn_configs self \<noteq> [] \<Longrightarrow> 0 < j \<Longrightarrow>
     current_vpn_index ((rotate ^^ j) self)
       = (current_vpn_index self + j) mod length (vpn_configs self)
   \<and> active_vpn ((rotate ^^ j) self)
       = Some (vpn_configs self ! ((current_vpn_index self + j) mod length (vpn_configs self)))"
proof (induction j)
  case 0
  then show ?case by simp
next
  case (Suc j)
  show ?case
  proof (cases "j = 0")
    case True
    with Suc.prems show ?thesis by (simp add: rotate_nonempty)
  next
    case False
    with Suc have ih: "current_vpn_index ((rotate ^^ j) self)
                         = (current_vpn_index self + j) mod length (vpn_configs self)"
      by simp
    have ne: "vpn_configs ((rotate ^^ j) self) \<noteq> []" using Suc.prems by simp
    show ?thesis
      using rotate_nonempty[OF ne] ih by (simp add: mod_Suc_eq)
  qed
qed

lemma rotate_closure:
  assumes "vpn_configs self \<noteq> []"
    and "current_vpn_index self < length (vpn_configs self)"
    and "active_vpn self = Some (vpn_configs self ! current_vpn_index self)"
  shows "(rotate ^^ length (vpn_configs self)) self = self"
proof -
  let ?K = "length (vpn_configs self)"
  have K: "0 < ?K" using assms(1) by simp
  from rotate_pow_index[OF assms(1) K] assms(2)
  have "current_vpn_index ((rotate ^^ ?K) self) = current_vpn_index self"
    and "active_vpn ((rotate ^^ ?K) self) = active_vpn self"
    by (simp_all add: assms(3))
  moreover have "vpn_configs ((rotate ^^ ?K) self) = vpn_configs self" by simp
  ultimately show ?thesis
    using rotate_pow_more[of ?K self] by (intro vpn_manager.equality) simp_all
qed

lemma rotate_settles:
  assumes "vpn_configs self \<noteq> []"
  shows "current_vpn_index ((rotate ^^ Suc j) self) < length (vpn_configs self)
       \<and> active_vpn ((rotate ^^ Suc j) self)
           = Some (vpn_configs self ! current_vpn_index ((rotate ^^ Suc j) self))
       \<and> (rotate ^^ length (vpn_configs self)) ((rotate ^^ Suc j) self) = (rotate ^^ Suc j) self"
proof -
  define s where "s = (rotate ^^ Suc j) self"
  have c: "vpn_configs s = vpn_configs self" unfolding s_def by (rule rotate_pow_configs)
  have i: "current_vpn_index s < length (vpn_configs self)"
      "active_vpn s = Some (vpn_configs self ! current_vpn_index s)"
    unfolding s_def using rotate_pow_index[OF assms, of "Suc j"] assms by simp_all
  have "(rotate ^^ length (vpn_configs s)) s = s"
    by (rule rotate_closure) (use c i assms in simp_all)
  with c i show ?thesis unfolding s_def by simp
qed

text \<open>
  The constructor establishes \<open>pool_ok\<close> when it is given no file, a file that does not
  load, or a file whose entries all load; \<open>add_vpn\<close> and \<open>rotate_vpn\<close> keep it.
\<close>

lemma load_entries_all:
  "list_all (\<lambda>e. e \<noteq> None) es \<Longrightarrow> snd (load_entries cfgs es)"
  by (induction cfgs es rule: load_entries.induct) auto

lemma pool_ok_init_none: "pool_ok (VPNManager_init None)"
  by (simp add: pool_ok_def VPNManager_init_def)

lemma pool_ok_init_unloadable: "pool_ok (VPNManager_init (Some Unloadable))"
  by (simp add: pool_ok_def VPNManager_init_def load_config_def)

lemma pool_ok_init_file:
  assumes "list_all (\<lambda>e. e \<noteq> None) es"
  shows "pool_ok (VPNManager_init (Some (Vpns es)))"
proof -
  obtain cfgs completed where l: "load_entries [] es = (cfgs, completed)"
    by (cases "load_entries [] es")
  with load_entries_all[OF assms, of "[]"] have "completed" by simp
  with l show ?thesis
    by (simp add: pool_ok_def VPNManager_init_def load_config_def Let_def)
qed

lemma pool_ok_add_vpn: "pool_ok self \<Longrightarrow> pool_ok (add_vpn self vpn)"
  by (auto simp: pool_ok_def add_vpn_def Let_def nth_append split: if_splits)

lemma pool_ok_rotate: "pool_ok self \<Longrightarrow> pool_ok (rotate self)"
  by (auto simp: pool_ok_def rotate_def rotate_vpn_def Let_def split: if_splits)

lemma reloaded_pool_state:
  "reloaded_pool =
     \<lparr>vpn_configs = [example_vpn ''a.test'', example_vpn ''b.test'', example_vpn ''c.test''],
      current_vpn_index = 1, active_vpn = Some (example_vpn ''a.test'')\<rparr>"
  by (simp add: reloaded_pool_def VPNManager_init_def load_config_def rotate_def rotate_vpn_def
        example_vpn_def Let_def)

lemma half_loaded_pool_state:
  "half_loaded_pool =
     \<lparr>vpn_configs = [example_vpn ''a.test''], current_vpn_index = 0, active_vpn = None\<rparr>"
  by (simp add: half_loaded_pool_def VPNManager_init_def load_config_def example_vpn_def Let_def)

text \<open>
  C8 as stated fails. A manager built from a file of three endpoints, rotated once and
  then given a second (empty) file to load has its cursor at position 1 and the first
  endpoint active: three rotations end with the second endpoint active. A manager
  built from a file whose second entry does not load has one endpoint and none active:
  one rotation makes that endpoint active.
\<close>

theorem rotation_changes_active_endpoint:
  "length (vpn_configs reloaded_pool) = 3
 \<and> current_vpn_index reloaded_pool = 1
 \<and> active_vpn reloaded_pool = Some (example_vpn ''a.test'')
 \<and> active_vpn (rotate (rotate (rotate reloaded_pool))) = Some (example_vpn ''b.test'')
 \<and> example_vpn ''b.test'' \<noteq> example_vpn ''a.test''
 \<and> length (vpn_configs half_loaded_pool) = 1
 \<and> active_vpn half_loaded_pool = None
 \<and> active_vpn (rotate half_loaded_pool) = Some (example_vpn ''a.test'')"
  by (simp add: reloaded_pool_state half_loaded_pool_state rotate_def rotate_vpn_def Let_def)
     (simp add: example_vpn_def)

text \<open>
  C8, amended. For a pool of K >= 1 endpoints whose cursor is a position of the pool
  and whose active endpoint is the one at the cursor, K calls of \<open>rotate_vpn\<close> bring the
  manager back to the state it started from, the active endpoint included. The
  constructor leaves the manager in such a state (or with an empty pool) when it is
  given no file or a file whose entries all load, and \<open>add_vpn\<close> and \<open>rotate_vpn\<close> keep
  it so. For a pool of K >= 1 endpoints in any state, every rotation leaves the cursor
  at a position of the pool and makes the endpoint there the active one, and K further
  rotations return to that state.
\<close>

theorem rotate_round_robin_closure:
  "(vpn_configs self \<noteq> [] \<and> pool_ok self
      \<longrightarrow> (rotate ^^ length (vpn_configs self)) self = self)
 \<and> (vpn_configs self \<noteq> []
      \<longrightarrow> (\<forall>j. current_vpn_index ((rotate ^^ Suc j) self) < length (vpn_configs self)
               \<and> active_vpn ((rotate ^^ Suc j) self)
                   = Some (vpn_configs self ! current_vpn_index ((rotate ^^ Suc j) self))
               \<and> (rotate ^^ length (vpn_configs self)) ((rotate ^^ Suc j) self)
                   = (rotate ^^ Suc j) self))
 \<and> pool_ok (VPNManager_init None)
 \<and> (list_all (\<lambda>e. e \<noteq> None) es \<longrightarrow> pool_ok (VPNManager_init (Some (Vpns es))))
 \<and> (pool_ok self \<longrightarrow> pool_ok (add_vpn self vpn) \<and> pool_ok (rotate self))"
proof -
  have a: "(rotate ^^ length (vpn_configs self)) self = self"
    if "vpn_configs self \<noteq> []" "pool_ok self"
    using that rotate_closure[of self] by (simp add: pool_ok_def)
  from a rotate_settles[of self] pool_ok_init_none pool_ok_init_file[of es]
    pool_ok_add_vpn[of self vpn] pool_ok_rotate[of self]
  show ?thesis by blast
qed

theorem rotate_round_robin_closure_witness:
  "vpn_configs example_pool \<noteq> [] \<and> pool_ok example_pool
 \<and> length (vpn_configs example_pool) = 3
 \<and> (rotate ^^ 3) example_pool = example_pool
 \<and> active_vpn (rotate example_pool) = Some (example_vpn ''c.test'')
 \<and> active_vpn (rotate (rotate example_pool)) = Some (example_vpn ''a.test'')
 \<and> active_vpn (rotate (rotate (rotate example_pool))) = Some (example_vpn ''b.test'')
 \<and> vpn_configs reloaded_pool \<noteq> []
 \<and> (rotate ^^ 3) (rotate reloaded_pool) = rotate reloaded_pool
 \<and> list_all (\<lambda>e. e \<noteq> None) [Some (example_vpn ''a.test''), Some (example_vpn ''b.test'')]
 \<and> pool_ok (VPNManager_init (Some (Vpns [Some (example_vpn ''a.test''),
                                          Some (example_vpn ''b.test'')])))"
proof -
  have h: "vpn_configs example_pool \<noteq> []" "pool_ok example_pool"
      "length (vpn_configs example_pool) = 3"
    by (simp_all add: example_pool_def pool_ok_def)
  from rotate_round_robin_closure[of example_pool] h
  have c: "(rotate ^^ 3) example_pool = example_pool" by simp
  have r: "active_vpn (rotate example_pool) = Some (example_vpn ''c.test'')"
      "active_vpn (rotate (rotate example_pool)) = Some (example_vpn ''a.test'')"
      "active_vpn (rotate (rotate (rotate example_pool))) = Some (example_vpn ''b.test'')"
    by (simp_all add: rotate_def rotate_vpn_def example_pool_def Let_def)
  have n: "vpn_configs reloaded_pool \<noteq> []" "length (vpn_configs reloaded_pool) = 3"
    by (simp_all add: reloaded_pool_state)
  from rotate_round_robin_closure[of reloaded_pool] n(1)
  have "(rotate ^^ length (vpn_configs reloaded_pool)) ((rotate ^^ Suc 0) reloaded_pool)
          = (rotate ^^ Suc 0) reloaded_pool"
    by blast
  then have d: "(rotate ^^ 3) (rotate reloaded_pool) = rotate reloaded_pool"
    using n(2) by simp
  have l: "list_all (\<lambda>e. e \<noteq> None) [Some (example_vpn ''a.test''), Some (example_vpn ''b.test'')]"
    by simp
  from rotate_round_robin_closure[where es = "[Some (example_vpn ''a.test''),
          Some (example_vpn ''b.test'')]"] l
  have p: "pool_ok (VPNManager_init (Some (Vpns [Some (example_vpn ''a.test''),
                                          Some (example_vpn ''b.test'')])))"
    by blast
  from h c r n(1) d l p show ?thesis by simp
qed

section \<open>CompetitorIntelligence.monitor\_changes without a baseline\<close>

text \<open>
  C9. With no previous report (\<open>None\<close>, and likewise an empty dictionary),
  \<open>monitor_changes\<close> returns normally a dictionary of exactly three keys: the URL, the
  message "No previous data for comparison" and the current report. The keys
  \<open>changes_detected\<close> and \<open>error\<close> are absent from it.
\<close>

theorem no_baseline_is_reported:
  "monitor_changes url None current_data now_iso =
     Inr [(''url'', PStr url), (''message'', PStr ''No previous data for comparison''),
          (''current_data'', current_data)]
 \<and> monitor_changes url (Some []) current_data now_iso
     = monitor_changes url None current_data now_iso
 \<and> (case monitor_changes url None current_data now_iso of
       Inl e \<Rightarrow> False
     | Inr result \<Rightarrow>
         map fst result = [''url'', ''message'', ''current_data'']
       \<and> map_of result ''changes_detected'' = None
       \<and> map_of result ''error'' = None
       \<and> map_of result ''message'' = Some (PStr ''No previous data for comparison'')
       \<and> map_of result ''current_data'' = Some current_data)"
  by (simp add: monitor_changes_def)

section \<open>The cache key\<close>

lemma hexdigit_in: "hexdigit n \<in> set ''0123456789abcdef''"
  unfolding hexdigit_def by (rule nth_mem) simp

lemma hex_byte_props:
  "length (hex_byte b) = 2 \<and> set (hex_byte b) \<subseteq> set ''0123456789abcdef''"
  using hexdigit_in[of "unat b div 16"] hexdigit_in[of "unat b mod 16"]
  by (simp add: hex_byte_def)

lemma concat_hex_length: "length (concat (map hex_byte bs)) = 2 * length bs"
  by (induction bs) (simp_all add: hex_byte_props)

lemma concat_hex_set: "set (concat (map hex_byte bs)) \<subseteq> set ''0123456789abcdef''"
proof (induction bs)
  case Nil
  then show ?case by simp
next
  case (Cons b bs)
  have "set (hex_byte b) \<subseteq> set ''0123456789abcdef''" using hex_byte_props[of b] by blast
  with Cons show ?case by (simp del: set_simps list.set)
qed

lemma hexdigest_props:
  "length (hexdigest st) = 32 \<and> set (hexdigest st) \<subseteq> set ''0123456789abcdef''"
proof -
  obtain a b c d where st: "st = (a, b, c, d)" by (cases st)
  define bs where "bs = le_bytes32 a @ le_bytes32 b @ le_bytes32 c @ le_bytes32 d"
  have l: "length bs = 16" by (simp add: bs_def le_bytes32_def)
  have h: "hexdigest st = concat (map hex_byte bs)" by (simp add: st hexdigest_def bs_def)
  show ?thesis
    unfolding h using concat_hex_length[of bs] concat_hex_set[of bs] l by simp
qed

text \<open>The digests of three strings, computed.\<close>

lemma key_of_empty: "get_cache_key [] = ''d41d8cd98f00b204e9800998ecf8427e''"
  by code_simp

lemma key_of_a_b:
  "get_cache_key ''https://example.com/search?a=1&b=2'' = ''0fb8228237f55f6d8792ecf68d4c8f6c''"
  by code_simp

lemma key_of_b_a:
  "get_cache_key ''https://example.com/search?b=2&a=1'' = ''771fe85c9864d179fc65478e91505b34''"
  by code_simp

text \<open>
  C6 as stated fails: the URL is not normalized before it is hashed. Two URLs that
  differ only in the order of their query parameters get different keys.
\<close>

theorem query_order_changes_cache_key:
  "get_cache_key ''https://example.com/search?a=1&b=2''
     \<noteq> get_cache_key ''https://example.com/search?b=2&a=1''"
  by (simp add: key_of_a_b key_of_b_a)

text \<open>
  C6, amended. The cache key is the MD5 hex digest of the UTF-8 bytes of the URL string
  as given, with no normalization: 32 lowercase hexadecimal characters, the same for
  identical URL strings. The empty string has the key d41d8cd98f00b204e9800998ecf8427e;
  \<open>https://example.com/search?a=1&b=2\<close> has the key 0fb8228237f55f6d8792ecf68d4c8f6c and
  \<open>https://example.com/search?b=2&a=1\<close>, the same URL with its query parameters in the
  other order, has the key 771fe85c9864d179fc65478e91505b34.
\<close>

theorem cache_key_is_md5_of_raw_url:
  "get_cache_key url = hexdigest (md5 (encode url))
 \<and> length (get_cache_key url) = 32
 \<and> set (get_cache_key url) \<subseteq> set ''0123456789abcdef''
 \<and> (url = url' \<longrightarrow> get_cache_key url = get_cache_key url')
 \<and> get_cache_key [] = ''d41d8cd98f00b204e9800998ecf8427e''
 \<and> get_cache_key ''https://example.com/search?a=1&b=2'' = ''0fb8228237f55f6d8792ecf68d4c8f6c''
 \<and> get_cache_key ''https://example.com/search?b=2&a=1'' = ''771fe85c9864d179fc65478e91505b34''"
proof -
  have "get_cache_key url = hexdigest (md5 (encode url))
      \<and> length (get_cache_key url) = 32
      \<and> set (get_cache_key url) \<subseteq> set ''0123456789abcdef''"
    using hexdigest_props[of "md5 (encode url)"] by (simp add: get_cache_key_def)
  with key_of_empty key_of_a_b key_of_b_a show ?thesis by blast
qed

theorem cache_key_is_md5_of_raw_url_witness:
  "''https://example.com/'' = ''https://example.com/''
 \<and> get_cache_key ''https://example.com/'' = hexdigest (md5 (encode ''https://example.com/''))
 \<and> length (get_cache_key ''https://example.com/'') = 32
 \<and> get_cache_key ''https://example.com/search?a=1&b=2'' = ''0fb8228237f55f6d8792ecf68d4c8f6c''
 \<and> get_cache_key ''https://example.com/search?b=2&a=1'' = ''771fe85c9864d179fc65478e91505b34''"
  using cache_key_is_md5_of_raw_url[of "''https://example.com/''" "''https://example.com/''"]
  by blast

section \<open>Running the extraction again\<close>


lemma occurs_String [simp]: "\<not> occurs nm (NavigableString s)" "\<not> occurs nm (OtherString s)"
  by (simp_all add: occurs_def)














text \<open>The loop over the tag names removes what the spec's one pass removes.\<close>

lemma named_without [simp]: "named nm (without nms c) = named nm c"
  by (cases c) simp_all
















end
